theory Spec2Isabelle
  imports Main
begin

section \<open>Credentials, exceptions and the outside world\<close>

text \<open>
  The three authentication routines of the repository
  (\<^verbatim>\<open>GoogleCalendarAPI._authenticate\<close> in calendar_api.py,
  \<^verbatim>\<open>authenticate_google_calendar\<close> in get_calendar_events.py and
  \<^verbatim>\<open>LambdaGoogleCalendarAPI._authenticate\<close> in lambda_calendar_api.py) work on a
  \<^verbatim>\<open>google.oauth2.credentials.Credentials\<close> object. Only the attributes the
  repository reads are kept: the access token, the refresh token, the expiry and the
  scopes.
\<close>

record credentials =
  token :: "string option"
  refresh_token :: "string option"
  expiry :: "int option"
  scopes :: "string list"

text \<open>Python exceptions, each with the text that \<^verbatim>\<open>str(e)\<close> yields.\<close>

datatype exn =
    FileNotFoundError string
  | ValueError string
  | TypeError string
  | KeyError string
  | AttributeError string
  | OverflowError string
  | OSError string
  | RefreshError string
  | LibraryError string

fun str_of_exn :: "exn \<Rightarrow> string" where
  "str_of_exn (FileNotFoundError m) = m"
| "str_of_exn (ValueError m) = m"
| "str_of_exn (TypeError m) = m"
| "str_of_exn (KeyError k) = [CHR 0x27] @ k @ [CHR 0x27]"
| "str_of_exn (AttributeError m) = m"
| "str_of_exn (OverflowError m) = m"
| "str_of_exn (OSError m) = m"
| "str_of_exn (RefreshError m) = m"
| "str_of_exn (LibraryError m) = m"

text \<open>
  A file is its contents and whether \<^verbatim>\<open>open(path)\<close> for reading succeeds on it.
\<close>

datatype file_node = File (readable: bool) (contents: string)

text \<open>
  The client-secrets flow object built by
  \<^verbatim>\<open>InstalledAppFlow.from_client_secrets_file\<close>.
\<close>

datatype flow = Flow string "string list"

text \<open>
  What the run observes of the outside, in order: file reads and writes, calls to the
  parameter store, calls to the provider's token endpoint (refresh), the interactive
  consent step (local server), and printed log lines.
\<close>

datatype effect =
    ReadFile string
  | WriteFile string string
  | SsmGet string
  | SsmPut string string
  | RefreshCall
  | LocalServer
  | Print string

text \<open>
  The mutable part of the world: the file system, the parameters of the remote
  parameter store, and the effects so far (oldest first).
\<close>

record world =
  files :: "string \<rightharpoonup> file_node"
  ssm_params :: "string \<rightharpoonup> string"
  trace :: "effect list"

text \<open>
  The part of the outside that a run does not change. The library and provider
  behaviour is not code of the repository, so it is a parameter:
  \<^item> \<open>now\<close> and \<open>clock_skew\<close>: the clock, and the allowance the library subtracts from
    the expiry before comparing (zero gives the plain comparison);
  \<^item> \<open>authorized_user_info\<close>: the record that a stored text holds, read by
    \<^verbatim>\<open>json.loads\<close> and the field extraction of
    \<^verbatim>\<open>Credentials.from_authorized_user_info\<close>: the token, the refresh token, the expiry
    and the scopes that were granted when the text was written; or the exception on
    text that is no JSON or lacks fields;
  \<^item> \<open>to_json\<close>: \<^verbatim>\<open>creds.to_json()\<close>;
  \<^item> \<open>refresh\<close>: \<^verbatim>\<open>creds.refresh(Request())\<close>, the refreshed object or the exception;
  \<^item> \<open>from_client_secrets_file\<close> (on the file's text) and \<open>run_local_server\<close>: the
    interactive grant;
  \<^item> \<open>unwritable\<close>: the paths on which \<^verbatim>\<open>open(path, 'w')\<close> raises;
  \<^item> \<open>ssm_get_error\<close>, \<open>ssm_put_error\<close>: the exception with which a call to the
    parameter store fails (access denied, network, no client), if it does.
\<close>

record env =
  now :: int
  clock_skew :: int
  authorized_user_info :: "string \<Rightarrow> exn + credentials"
  to_json :: "credentials \<Rightarrow> string"
  refresh :: "credentials \<Rightarrow> exn + credentials"
  from_client_secrets_file :: "string \<Rightarrow> string list \<Rightarrow> exn + flow"
  run_local_server :: "flow \<Rightarrow> exn + credentials"
  unwritable :: "string set"
  ssm_get_error :: "exn option"
  ssm_put_error :: "exn option"

definition SCOPES :: "string list" where
  "SCOPES = [''https://www.googleapis.com/auth/calendar.readonly'']"

text \<open>
  \<^verbatim>\<open>Credentials.from_authorized_user_info(json.loads(text), scopes)\<close> with a scopes
  argument, as every call of the repository has it: the object gets the scopes of the
  argument, and the scopes stored in the text are dropped.
\<close>

definition from_authorized_user_info :: "env \<Rightarrow> string \<Rightarrow> string list \<Rightarrow> exn + credentials" where
  "from_authorized_user_info e text sc =
     (case authorized_user_info e text of
        Inl x \<Rightarrow> Inl x
      | Inr r \<Rightarrow> Inr (r\<lparr>scopes := sc\<rparr>))"

text \<open>
  \<^verbatim>\<open>creds.expired\<close> and \<^verbatim>\<open>creds.valid\<close> of the library: no expiry means never
  expired; valid means a token is present and it is not expired. Neither looks at the
  scopes.
\<close>

definition expired :: "env \<Rightarrow> credentials \<Rightarrow> bool" where
  "expired e c = (case expiry c of None \<Rightarrow> False | Some t \<Rightarrow> t - clock_skew e \<le> now e)"

definition valid :: "env \<Rightarrow> credentials \<Rightarrow> bool" where
  "valid e c = (token c \<noteq> None \<and> \<not> expired e c)"

text \<open>Python truthiness of an optional string: \<^verbatim>\<open>None\<close> and \<^verbatim>\<open>''\<close> are false.\<close>

fun truthy :: "string option \<Rightarrow> bool" where
  "truthy None = False"
| "truthy (Some s) = (s \<noteq> [])"

definition emit :: "effect \<Rightarrow> world \<Rightarrow> world" where
  "emit x w = w\<lparr>trace := trace w @ [x]\<rparr>"

definition exists :: "world \<Rightarrow> string \<Rightarrow> bool" where
  "exists w p = (files w p \<noteq> None)"

text \<open>\<^verbatim>\<open>open(p).read()\<close>\<close>

definition read_file :: "string \<Rightarrow> world \<Rightarrow> (exn + string) \<times> world" where
  "read_file p w =
     (case files w p of
        None \<Rightarrow> (Inl (FileNotFoundError p), w)
      | Some (File r s) \<Rightarrow>
          (if r then (Inr s, emit (ReadFile p) w)
           else (Inl (OSError p), emit (ReadFile p) w)))"

text \<open>\<^verbatim>\<open>with open(p, 'w') as f: f.write(s)\<close>\<close>

definition write_file :: "env \<Rightarrow> string \<Rightarrow> string \<Rightarrow> world \<Rightarrow> (exn + unit) \<times> world" where
  "write_file e p s w =
     (if p \<in> unwritable e then (Inl (OSError p), w)
      else (Inr (),
            emit (WriteFile p s)
              (w\<lparr>files := (files w)(p \<mapsto>
                   File (case files w p of None \<Rightarrow> True | Some n \<Rightarrow> readable n) s)\<rparr>)))"

section \<open>calendar\_api.py: GoogleCalendarAPI.\_authenticate\<close>

text \<open>Lines 47-53: the token file, with every exception caught and printed.\<close>

definition load_token_file :: "env \<Rightarrow> string \<Rightarrow> world \<Rightarrow> credentials option \<times> world" where
  "load_token_file e token_path w =
     (if exists w token_path then
        (case read_file token_path w of
           (Inl x, w1) \<Rightarrow> (None, emit (Print (''Error loading token: '' @ str_of_exn x)) w1)
         | (Inr s, w1) \<Rightarrow>
             (case from_authorized_user_info e s SCOPES of
                Inl x \<Rightarrow> (None, emit (Print (''Error loading token: '' @ str_of_exn x)) w1)
              | Inr c \<Rightarrow> (Some c, w1)))
      else (None, w))"

text \<open>Line 58: \<^verbatim>\<open>creds.refresh(Request())\<close>, not guarded by any handler.\<close>

definition do_refresh :: "env \<Rightarrow> credentials \<Rightarrow> world \<Rightarrow> (exn + credentials) \<times> world" where
  "do_refresh e c w = (refresh e c, emit RefreshCall w)"

text \<open>Lines 60-69: the interactive grant from the client secrets.\<close>

definition interactive_grant ::
  "env \<Rightarrow> string \<Rightarrow> string \<Rightarrow> world \<Rightarrow> (exn + credentials) \<times> world" where
  "interactive_grant e credentials_path missing_message w =
     (if \<not> exists w credentials_path then (Inl (FileNotFoundError missing_message), w)
      else
        (case read_file credentials_path w of
           (Inl x, w1) \<Rightarrow> (Inl x, w1)
         | (Inr s, w1) \<Rightarrow>
             (case from_client_secrets_file e s SCOPES of
                Inl x \<Rightarrow> (Inl x, w1)
              | Inr fl \<Rightarrow> (run_local_server e fl, emit LocalServer w1))))"

text \<open>Lines 71-73: the obtained credentials are written to the token file.\<close>

definition save_token_file ::
  "env \<Rightarrow> string \<Rightarrow> (exn + credentials) \<times> world \<Rightarrow> (exn + credentials) \<times> world" where
  "save_token_file e token_path r =
     (case r of
        (Inl x, w) \<Rightarrow> (Inl x, w)
      | (Inr c, w) \<Rightarrow>
          (case write_file e token_path (to_json e c) w of
             (Inl x, w1) \<Rightarrow> (Inl x, w1)
           | (Inr u, w1) \<Rightarrow> (Inr c, w1)))"

text \<open>Lines 56-76. The service object returned is represented by its credentials.\<close>

definition renew ::
  "env \<Rightarrow> string \<Rightarrow> string \<Rightarrow> string \<Rightarrow> credentials option \<Rightarrow> world
     \<Rightarrow> (exn + credentials) \<times> world" where
  "renew e credentials_path missing_message token_path creds w =
     (case creds of
        None \<Rightarrow>
          save_token_file e token_path (interactive_grant e credentials_path missing_message w)
      | Some c \<Rightarrow>
          (if valid e c then (Inr c, w)
           else if expired e c \<and> truthy (refresh_token c) then
             save_token_file e token_path (do_refresh e c w)
           else
             save_token_file e token_path
               (interactive_grant e credentials_path missing_message w)))"

definition GoogleCalendarAPI_authenticate ::
  "env \<Rightarrow> string \<Rightarrow> string \<Rightarrow> world \<Rightarrow> (exn + credentials) \<times> world" where
  "GoogleCalendarAPI_authenticate e credentials_path token_path w =
     (case load_token_file e token_path w of
        (creds, w1) \<Rightarrow>
          renew e credentials_path
            (credentials_path @
               '' file not found. Please download it from Google Cloud Console and save it in the current directory.'')
            token_path creds w1)"

section \<open>get\_calendar\_events.py: authenticate\_google\_calendar\<close>

text \<open>
  Lines 31-34: the same load on the fixed path, but with no handler: an exception
  from \<^verbatim>\<open>open\<close>, \<^verbatim>\<open>json.loads\<close> or \<^verbatim>\<open>from_authorized_user_info\<close> leaves the function.
\<close>

definition load_token_unguarded ::
  "env \<Rightarrow> string \<Rightarrow> world \<Rightarrow> (exn + credentials option) \<times> world" where
  "load_token_unguarded e token_path w =
     (if exists w token_path then
        (case read_file token_path w of
           (Inl x, w1) \<Rightarrow> (Inl x, w1)
         | (Inr s, w1) \<Rightarrow>
             (case from_authorized_user_info e s SCOPES of
                Inl x \<Rightarrow> (Inl x, w1)
              | Inr c \<Rightarrow> (Inr (Some c), w1)))
      else (Inr None, w))"

definition authenticate_google_calendar :: "env \<Rightarrow> world \<Rightarrow> (exn + credentials) \<times> world" where
  "authenticate_google_calendar e w =
     (case load_token_unguarded e ''token.json'' w of
        (Inl x, w1) \<Rightarrow> (Inl x, w1)
      | (Inr creds, w1) \<Rightarrow>
          renew e ''credentials.json''
            ''credentials.json file not found. Please download it from Google Cloud Console and save it in the current directory.''
            ''token.json'' creds w1)"

section \<open>lambda\_calendar\_api.py: LambdaGoogleCalendarAPI\<close>

text \<open>\<^verbatim>\<open>ssm.get_parameter(Name=..., WithDecryption=True)['Parameter']['Value']\<close>\<close>

definition ssm_get_parameter :: "env \<Rightarrow> string \<Rightarrow> world \<Rightarrow> exn + string" where
  "ssm_get_parameter e name w =
     (case ssm_get_error e of
        Some x \<Rightarrow> Inl x
      | None \<Rightarrow>
          (case ssm_params w name of
             None \<Rightarrow> Inl (LibraryError ''ParameterNotFound'')
           | Some v \<Rightarrow> Inr v))"

text \<open>Lines 42-61.\<close>

definition get_token_from_parameter_store ::
  "env \<Rightarrow> string option \<Rightarrow> world \<Rightarrow> string option \<times> world" where
  "get_token_from_parameter_store e parameter_store_token_name w =
     (case parameter_store_token_name of
        None \<Rightarrow> (None, w)
      | Some name \<Rightarrow>
          (if name = [] then (None, w)
           else
             (case ssm_get_parameter e name w of
                Inl x \<Rightarrow>
                  (None,
                   emit (Print (''Error retrieving token from Parameter Store: '' @ str_of_exn x))
                     (emit (SsmGet name) w))
              | Inr v \<Rightarrow> (Some v, emit (SsmGet name) w))))"

text \<open>
  Lines 63-87: \<^verbatim>\<open>put_parameter\<close> with \<^verbatim>\<open>Overwrite=True\<close>; any exception is printed
  and turned into \<^verbatim>\<open>False\<close>.
\<close>

definition save_token_to_parameter_store ::
  "env \<Rightarrow> string option \<Rightarrow> string \<Rightarrow> world \<Rightarrow> bool \<times> world" where
  "save_token_to_parameter_store e parameter_store_token_name token_json w =
     (case parameter_store_token_name of
        None \<Rightarrow> (False, w)
      | Some name \<Rightarrow>
          (if name = [] then (False, w)
           else
             (case ssm_put_error e of
                Some x \<Rightarrow>
                  (False,
                   emit (Print (''Error saving token to Parameter Store: '' @ str_of_exn x))
                     (emit (SsmPut name token_json) w))
              | None \<Rightarrow>
                  (True,
                   emit (SsmPut name token_json)
                     (w\<lparr>ssm_params := (ssm_params w)(name \<mapsto> token_json)\<rparr>)))))"

text \<open>Lines 98-105: the record of the parameter store, if one is configured.\<close>

definition load_remote :: "env \<Rightarrow> string option \<Rightarrow> world \<Rightarrow> credentials option \<times> world" where
  "load_remote e parameter_store_token_name w =
     (case get_token_from_parameter_store e parameter_store_token_name w of
        (None, w1) \<Rightarrow> (None, w1)
      | (Some token_json, w1) \<Rightarrow>
          (if token_json = [] then (None, w1)
           else
             (case from_authorized_user_info e token_json SCOPES of
                Inl x \<Rightarrow>
                  (None,
                   emit (Print (''Error loading token from Parameter Store: '' @ str_of_exn x)) w1)
              | Inr c \<Rightarrow> (Some c, w1))))"

text \<open>Lines 107-114: the local file, only when the parameter store gave no credentials.\<close>

definition load_local :: "env \<Rightarrow> string \<Rightarrow> credentials option \<Rightarrow> world \<Rightarrow> credentials option \<times> world" where
  "load_local e token_path creds w =
     (if creds = None \<and> exists w token_path then
        (case read_file token_path w of
           (Inl x, w1) \<Rightarrow>
             (None, emit (Print (''Error loading token from file: '' @ str_of_exn x)) w1)
         | (Inr s, w1) \<Rightarrow>
             (case from_authorized_user_info e s SCOPES of
                Inl x \<Rightarrow>
                  (None, emit (Print (''Error loading token from file: '' @ str_of_exn x)) w1)
              | Inr c \<Rightarrow> (Some c, w1)))
      else (creds, w))"

text \<open>Lines 116-143.\<close>

definition lambda_renew ::
  "env \<Rightarrow> string \<Rightarrow> string option \<Rightarrow> credentials option \<Rightarrow> world
     \<Rightarrow> (exn + credentials) \<times> world" where
  "lambda_renew e token_path parameter_store_token_name creds w =
     (case creds of
        None \<Rightarrow>
          (Inl (ValueError
             ''No valid credentials found. Please run the authentication flow locally first.''), w)
      | Some c \<Rightarrow>
          (if valid e c then (Inr c, w)
           else if expired e c \<and> truthy (refresh_token c) then
             (case do_refresh e c w of
                (Inl x, w1) \<Rightarrow> (Inl x, w1)
              | (Inr c', w1) \<Rightarrow>
                  (case write_file e token_path (to_json e c') w1 of
                     (Inl x, w2) \<Rightarrow> (Inl x, w2)
                   | (Inr u, w2) \<Rightarrow>
                       (case save_token_to_parameter_store e parameter_store_token_name
                               (to_json e c') w2 of
                          (saved, w3) \<Rightarrow> (Inr c', w3))))
           else
             (Inl (ValueError
                ''Token is expired and can't be refreshed in Lambda environment. Please generate a new token using the local authentication flow.''),
              w)))"

text \<open>Lines 96-114: the parameter store first, then the local file.\<close>

definition lambda_load ::
  "env \<Rightarrow> string \<Rightarrow> string option \<Rightarrow> world \<Rightarrow> credentials option \<times> world" where
  "lambda_load e token_path parameter_store_token_name w =
     (case load_remote e parameter_store_token_name w of
        (creds, w1) \<Rightarrow> load_local e token_path creds w1)"

definition LambdaGoogleCalendarAPI_authenticate ::
  "env \<Rightarrow> string \<Rightarrow> string option \<Rightarrow> world \<Rightarrow> (exn + credentials) \<times> world" where
  "LambdaGoogleCalendarAPI_authenticate e token_path parameter_store_token_name w =
     (case lambda_load e token_path parameter_store_token_name w of
        (creds, w1) \<Rightarrow> lambda_renew e token_path parameter_store_token_name creds w1)"

section \<open>Observing a run\<close>

text \<open>The effects a run added: what the trace of the world after has beyond the one before.\<close>

definition new_effects :: "world \<Rightarrow> world \<Rightarrow> effect list" where
  "new_effects w w' = drop (length (trace w)) (trace w')"

fun is_ssm_get :: "effect \<Rightarrow> bool" where
  "is_ssm_get (SsmGet n) = True"
| "is_ssm_get x = False"

fun is_read :: "effect \<Rightarrow> bool" where
  "is_read (ReadFile p) = True"
| "is_read x = False"

fun is_write :: "effect \<Rightarrow> bool" where
  "is_write (WriteFile p s) = True"
| "is_write (SsmPut n s) = True"
| "is_write x = False"

section \<open>Concrete records and worlds\<close>

text \<open>
  The clock of \<open>ex_env\<close> is at 1000 and the allowance is the 225 seconds (3 minutes 45
  seconds) of the library. \<open>ex_valid\<close> is a stored record that was granted no scope.
\<close>

definition ex_valid :: credentials where
  "ex_valid = \<lparr>token = Some ''ya29.valid'', refresh_token = Some ''1//refresh'',
               expiry = Some 5000, scopes = []\<rparr>"

definition ex_expired :: credentials where
  "ex_expired = \<lparr>token = Some ''ya29.old'', refresh_token = Some ''1//refresh'',
                 expiry = Some 999, scopes = SCOPES\<rparr>"

definition ex_fresh :: credentials where
  "ex_fresh = \<lparr>token = Some ''ya29.new'', refresh_token = Some ''1//refresh'',
               expiry = Some 4600, scopes = SCOPES\<rparr>"

text \<open>A record that expires in 100 seconds, inside the allowance of \<open>ex_env\<close>.\<close>

definition ex_soon :: credentials where
  "ex_soon = \<lparr>token = Some ''ya29.soon'', refresh_token = Some ''1//refresh'',
              expiry = Some 1100, scopes = SCOPES\<rparr>"

definition ex_stored :: "string \<Rightarrow> exn + credentials" where
  "ex_stored s =
     (if s = ''valid-json'' then Inr ex_valid
      else if s = ''expired-json'' then Inr ex_expired
      else if s = ''fresh-json'' then Inr ex_fresh
      else if s = ''soon-json'' then Inr ex_soon
      else Inl (ValueError ''Expecting value: line 1 column 1 (char 0)''))"

definition ex_to_json :: "credentials \<Rightarrow> string" where
  "ex_to_json c =
     (if token c = Some ''ya29.new'' then ''fresh-json''
      else if token c = Some ''ya29.valid'' then ''valid-json''
      else if token c = Some ''ya29.soon'' then ''soon-json''
      else ''expired-json'')"

definition ex_env :: env where
  "ex_env = \<lparr>now = 1000, clock_skew = 225,
             authorized_user_info = ex_stored,
             to_json = ex_to_json,
             refresh = (\<lambda>c. Inr ex_fresh),
             from_client_secrets_file = (\<lambda>s sc. Inr (Flow s sc)),
             run_local_server = (\<lambda>fl. Inr ex_fresh),
             unwritable = {},
             ssm_get_error = None,
             ssm_put_error = None\<rparr>"

text \<open>The provider rejects the refresh token.\<close>

definition ex_env_revoked :: env where
  "ex_env_revoked = ex_env\<lparr>refresh := (\<lambda>c. Inl (RefreshError ''invalid_grant: Token has been expired or revoked.''))\<rparr>"

text \<open>The parameter store rejects the write.\<close>

definition ex_env_conflict :: env where
  "ex_env_conflict = ex_env\<lparr>ssm_put_error := Some (LibraryError ''TooManyUpdates'')\<rparr>"

text \<open>An interactive machine: token file and client secrets in the working directory.\<close>

definition ex_local :: "string \<Rightarrow> world" where
  "ex_local s = \<lparr>files = [''token.json'' \<mapsto> File True s,
                          ''credentials.json'' \<mapsto> File True ''client-secrets''],
                 ssm_params = Map.empty, trace = []\<rparr>"

text \<open>A Lambda container: a token file under /tmp and a parameter of the store.\<close>

definition ex_lambda :: "string \<Rightarrow> string \<Rightarrow> world" where
  "ex_lambda s p = \<lparr>files = [''/tmp/token.json'' \<mapsto> File True s],
                    ssm_params = [''calendar-token'' \<mapsto> p], trace = []\<rparr>"

section \<open>JSON values and the dictionary operations of the code\<close>

text \<open>
  Calendar events and the Lambda event are Python dictionaries decoded from JSON.
  \<open>JNull\<close> is \<^verbatim>\<open>None\<close>. Numbers are integers: the code converts a number only in
  \<^verbatim>\<open>int(...)\<close> of the \<^verbatim>\<open>days\<close> parameter.
\<close>

datatype json =
    JNull
  | JBool bool
  | JInt int
  | JStr string
  | JList "json list"
  | JObj "(string \<times> json) list"

type_synonym dict = "(string \<times> json) list"

fun type_name :: "json \<Rightarrow> string" where
  "type_name JNull = ''NoneType''"
| "type_name (JBool b) = ''bool''"
| "type_name (JInt n) = ''int''"
| "type_name (JStr s) = ''str''"
| "type_name (JList xs) = ''list''"
| "type_name (JObj d) = ''dict''"

definition quoted :: "string \<Rightarrow> string" where
  "quoted s = [CHR 0x27] @ s @ [CHR 0x27]"

text \<open>Sequencing of steps that may raise: the first exception ends the computation.\<close>

definition and_then :: "exn + 'a \<Rightarrow> ('a \<Rightarrow> exn + 'b) \<Rightarrow> exn + 'b" where
  "and_then r f = (case r of Inl x \<Rightarrow> Inl x | Inr a \<Rightarrow> f a)"

text \<open>\<^verbatim>\<open>d.get(k, default)\<close> and \<^verbatim>\<open>d[k]\<close> on a dictionary, \<^verbatim>\<open>k in d\<close>.\<close>

definition dict_get :: "dict \<Rightarrow> string \<Rightarrow> json \<Rightarrow> json" where
  "dict_get d k dflt = (case map_of d k of None \<Rightarrow> dflt | Some v \<Rightarrow> v)"

definition dict_item :: "dict \<Rightarrow> string \<Rightarrow> exn + json" where
  "dict_item d k = (case map_of d k of None \<Rightarrow> Inl (KeyError k) | Some v \<Rightarrow> Inr v)"

definition has_key :: "dict \<Rightarrow> string \<Rightarrow> bool" where
  "has_key d k = (map_of d k \<noteq> None)"

text \<open>
  \<^verbatim>\<open>x.get\<close> on a value of any type: only a dictionary has the method, on every other
  value the attribute lookup raises.
\<close>

definition get_method :: "json \<Rightarrow> exn + dict" where
  "get_method x =
     (case x of
        JObj d \<Rightarrow> Inr d
      | _ \<Rightarrow> Inl (AttributeError
                 (quoted (type_name x) @ '' object has no attribute '' @ quoted ''get'')))"

text \<open>\<^verbatim>\<open>for a in x\<close>: a list gives its items, a dictionary its keys, a string its characters.\<close>

definition py_iter :: "json \<Rightarrow> exn + json list" where
  "py_iter x =
     (case x of
        JList xs \<Rightarrow> Inr xs
      | JObj d \<Rightarrow> Inr (map (\<lambda>kv. JStr (fst kv)) d)
      | JStr s \<Rightarrow> Inr (map (\<lambda>c. JStr [c]) s)
      | _ \<Rightarrow> Inl (TypeError (quoted (type_name x) @ '' object is not iterable'')))"

section \<open>format\_events (calendar\_api.py 121-182, lambda\_calendar\_api.py 188-249)\<close>

text \<open>
  The two copies of \<^verbatim>\<open>format_events\<close> are the same text. The date functions are
  library code and are parameters:
  \<^item> \<open>strptime_date\<close>: \<^verbatim>\<open>datetime.datetime.strptime(s, '%Y-%m-%d').date()\<close>, the date as its
    proleptic Gregorian ordinal (day 1 is 0001-01-01, \<^verbatim>\<open>date.min\<close>), or the exception;
  \<^item> \<open>date_isoformat\<close>: \<^verbatim>\<open>isoformat()\<close> of the date with that ordinal;
  \<^item> \<open>dateutil_parse\<close>: \<^verbatim>\<open>dateutil.parser.parse(s)\<close>, and \<open>datetime_isoformat\<close> its
    \<^verbatim>\<open>isoformat()\<close>.
\<close>

record 'dt time_lib =
  strptime_date :: "string \<Rightarrow> exn + int"
  date_isoformat :: "int \<Rightarrow> string"
  dateutil_parse :: "string \<Rightarrow> exn + 'dt"
  datetime_isoformat :: "'dt \<Rightarrow> string"

definition strptime :: "'dt time_lib \<Rightarrow> json \<Rightarrow> exn + int" where
  "strptime lib x =
     (case x of
        JStr s \<Rightarrow> strptime_date lib s
      | JNull \<Rightarrow> Inl (TypeError ''strptime() argument 1 must be str, not None'')
      | _ \<Rightarrow> Inl (TypeError (''strptime() argument 1 must be str, not '' @ type_name x)))"

definition parse :: "'dt time_lib \<Rightarrow> json \<Rightarrow> exn + 'dt" where
  "parse lib x =
     (case x of
        JStr s \<Rightarrow> dateutil_parse lib s
      | _ \<Rightarrow> Inl (TypeError
                 (''Parser must be a string or character stream, not '' @ type_name x)))"

text \<open>
  Line 154, \<^verbatim>\<open>end_obj - datetime.timedelta(days=1)\<close>: there is no date before
  \<^verbatim>\<open>date.min\<close>.
\<close>

definition minus_one_day :: "int \<Rightarrow> exn + int" where
  "minus_one_day d =
     (if d - 1 < 1 then Inl (OverflowError ''date value out of range'') else Inr (d - 1))"

text \<open>
  Lines 143-147: the start value, the end value and whether the event is all-day.
  \<^verbatim>\<open>x.get('dateTime', x.get('date'))\<close> is the \<^verbatim>\<open>dateTime\<close> entry if there is one,
  else the \<^verbatim>\<open>date\<close> entry, else \<^verbatim>\<open>None\<close>.
\<close>

definition time_value :: "dict \<Rightarrow> json" where
  "time_value d = dict_get d ''dateTime'' (dict_get d ''date'' JNull)"

definition start_end :: "dict \<Rightarrow> exn + (json \<times> json \<times> bool)" where
  "start_end event =
     and_then (dict_item event ''start'') (\<lambda>s.
     and_then (get_method s) (\<lambda>sd.
     and_then (dict_item event ''end'') (\<lambda>e.
     and_then (get_method e) (\<lambda>ed.
       Inr (time_value sd, time_value ed,
            has_key sd ''date'' \<and> \<not> has_key sd ''dateTime'')))))"

text \<open>Lines 150-157 and 163-164: the two ISO strings.\<close>

definition format_times :: "'dt time_lib \<Rightarrow> json \<Rightarrow> json \<Rightarrow> bool \<Rightarrow> exn + (string \<times> string)" where
  "format_times lib start end_value is_all_day =
     (if is_all_day then
        and_then (strptime lib start) (\<lambda>start_obj.
        and_then (strptime lib end_value) (\<lambda>end_obj.
        and_then (minus_one_day end_obj) (\<lambda>end_obj'.
          Inr (date_isoformat lib start_obj, date_isoformat lib end_obj'))))
      else
        and_then (parse lib start) (\<lambda>start_obj.
        and_then (parse lib end_value) (\<lambda>end_obj.
          Inr (datetime_isoformat lib start_obj, datetime_isoformat lib end_obj))))"

text \<open>Line 175: \<^verbatim>\<open>[a.get('email') for a in event.get('attendees', [])]\<close>\<close>

fun attendee_emails :: "json list \<Rightarrow> exn + json list" where
  "attendee_emails [] = Inr []"
| "attendee_emails (a # as) =
     and_then (get_method a) (\<lambda>d.
     and_then (attendee_emails as) (\<lambda>rest.
       Inr (dict_get d ''email'' JNull # rest)))"

text \<open>Lines 170-178: the entries added with \<^verbatim>\<open>include_details\<close>.\<close>

definition details :: "dict \<Rightarrow> exn + dict" where
  "details event =
     and_then (get_method (dict_get event ''creator'' (JObj []))) (\<lambda>creator.
     and_then (get_method (dict_get event ''organizer'' (JObj []))) (\<lambda>organizer.
     and_then (py_iter (dict_get event ''attendees'' (JList []))) (\<lambda>attendees.
     and_then (attendee_emails attendees) (\<lambda>emails.
       Inr [(''description'', dict_get event ''description'' (JStr '''')),
            (''location'', dict_get event ''location'' (JStr '''')),
            (''creator'', dict_get creator ''email'' (JStr '''')),
            (''organizer'', dict_get organizer ''email'' (JStr '''')),
            (''attendees'', JList emails),
            (''status'', dict_get event ''status'' (JStr '''')),
            (''link'', dict_get event ''htmlLink'' (JStr ''''))]))))"

text \<open>Lines 136-180: the body of the loop, for one event.\<close>

definition format_event :: "'dt time_lib \<Rightarrow> dict \<Rightarrow> bool \<Rightarrow> exn + dict" where
  "format_event lib event include_details =
     and_then (start_end event) (\<lambda>(start, end_value, is_all_day).
     and_then (format_times lib start end_value is_all_day) (\<lambda>(start_iso, end_iso).
       (let formatted_event =
              [(''id'', dict_get event ''id'' (JStr '''')),
               (''summary'', dict_get event ''summary'' (JStr ''No Title'')),
               (''start'', JStr start_iso),
               (''end'', JStr end_iso),
               (''is_all_day'', JBool is_all_day)]
        in if include_details
           then and_then (details event) (\<lambda>d. Inr (formatted_event @ d))
           else Inr formatted_event)))"

text \<open>Lines 133-182: the loop; an exception in one event ends the whole call.\<close>

fun format_events :: "'dt time_lib \<Rightarrow> dict list \<Rightarrow> bool \<Rightarrow> exn + dict list" where
  "format_events lib [] include_details = Inr []"
| "format_events lib (event # events) include_details =
     and_then (format_event lib event include_details) (\<lambda>formatted_event.
     and_then (format_events lib events include_details) (\<lambda>formatted_events.
       Inr (formatted_event # formatted_events)))"

text \<open>
  What an event must look like for the loop body not to raise: a dictionary under
  \<^verbatim>\<open>start\<close> and under \<^verbatim>\<open>end\<close>, time values that the parser of its kind accepts (and,
  for an all-day event, an end after \<^verbatim>\<open>date.min\<close>), and, with \<^verbatim>\<open>include_details\<close>,
  dictionaries for creator, organizer and each attendee.
\<close>

definition is_dict :: "json \<Rightarrow> bool" where
  "is_dict x = (case x of JObj d \<Rightarrow> True | _ \<Rightarrow> False)"

definition is_ok :: "exn + 'a \<Rightarrow> bool" where
  "is_ok r = (case r of Inl x \<Rightarrow> False | Inr a \<Rightarrow> True)"

definition times_accepted :: "'dt time_lib \<Rightarrow> dict \<Rightarrow> dict \<Rightarrow> bool" where
  "times_accepted lib sd ed =
     (if has_key sd ''date'' \<and> \<not> has_key sd ''dateTime'' then
        is_ok (strptime lib (time_value sd))
        \<and> (case strptime lib (time_value ed) of Inl x \<Rightarrow> False | Inr d \<Rightarrow> 1 \<le> d - 1)
      else is_ok (parse lib (time_value sd)) \<and> is_ok (parse lib (time_value ed)))"

definition details_accepted :: "dict \<Rightarrow> bool" where
  "details_accepted event =
     (is_dict (dict_get event ''creator'' (JObj []))
      \<and> is_dict (dict_get event ''organizer'' (JObj []))
      \<and> (case dict_get event ''attendees'' (JList []) of
            JList xs \<Rightarrow> list_all is_dict xs
          | JObj d \<Rightarrow> d = []
          | JStr s \<Rightarrow> s = []
          | _ \<Rightarrow> False))"

definition entries :: "json \<Rightarrow> dict" where
  "entries x = (case x of JObj d \<Rightarrow> d | _ \<Rightarrow> [])"

definition well_formed_event :: "'dt time_lib \<Rightarrow> bool \<Rightarrow> dict \<Rightarrow> bool" where
  "well_formed_event lib include_details event =
     (case map_of event ''start'' of
        None \<Rightarrow> False
      | Some s \<Rightarrow>
          (case map_of event ''end'' of
             None \<Rightarrow> False
           | Some e \<Rightarrow>
               is_dict s \<and> is_dict e \<and> times_accepted lib (entries s) (entries e)
               \<and> (include_details \<longrightarrow> details_accepted event)))"

section \<open>Concrete events\<close>

definition ex_time :: "string time_lib" where
  "ex_time =
     \<lparr>strptime_date = (\<lambda>s.
         if s = ''2024-03-01'' then Inr 738946
         else if s = ''2024-03-03'' then Inr 738948
         else Inl (ValueError
                (''time data '' @ quoted s @ '' does not match format '' @ quoted ''%Y-%m-%d''))),
      date_isoformat = (\<lambda>d.
         if d = 738946 then ''2024-03-01''
         else if d = 738947 then ''2024-03-02''
         else ''2024-03-03''),
      dateutil_parse = (\<lambda>s.
         if s = ''2024-03-04T09:00:00+01:00'' \<or> s = ''2024-03-04T10:30:00+01:00'' then Inr s
         else Inl (ValueError (''Unknown string format: '' @ s))),
      datetime_isoformat = (\<lambda>t. t)\<rparr>"

text \<open>A two-day all-day event, as the provider sends it: the end is the day after the last.\<close>

definition ex_all_day :: dict where
  "ex_all_day =
     [(''id'', JStr ''ev1''), (''summary'', JStr ''Conference''),
      (''start'', JObj [(''date'', JStr ''2024-03-01'')]),
      (''end'', JObj [(''date'', JStr ''2024-03-03'')])]"

definition ex_timed :: dict where
  "ex_timed =
     [(''id'', JStr ''ev2''),
      (''start'', JObj [(''dateTime'', JStr ''2024-03-04T09:00:00+01:00'')]),
      (''end'', JObj [(''dateTime'', JStr ''2024-03-04T10:30:00+01:00'')])]"

text \<open>An event that carries both fields, with nothing in them.\<close>

definition ex_bare :: dict where
  "ex_bare = [(''id'', JStr ''ev3''), (''start'', JObj []), (''end'', JObj [])]"

section \<open>lambda\_function.py: lambda\_handler\<close>

text \<open>
  What the handler takes from outside, besides the authentication environment and the
  date functions:
  \<^item> \<open>environ\<close>: \<^verbatim>\<open>os.environ\<close>;
  \<^item> \<open>int_of_str\<close>: \<^verbatim>\<open>int(s)\<close> on a string, \<open>None\<close> where it raises \<^verbatim>\<open>ValueError\<close>;
  \<^item> \<open>b64decode_utf8\<close>: \<^verbatim>\<open>base64.b64decode(s).decode('utf-8')\<close>, or its exception;
  \<^item> \<open>get_events\<close>: the outcome of \<^verbatim>\<open>calendar_api.get_events(days_back=...)\<close>, the
    items of the provider's answer or the exception of the request;
  \<^item> \<open>analyze_events\<close>: the outcome of \<^verbatim>\<open>analyze_events(formatted_events, days_back)\<close>
    of calendar\_analysis\_local.py, which the handler only serialises, so that every
    statement below holds whatever it computes or raises;
  \<^item> \<open>json_dumps\<close>: \<^verbatim>\<open>json.dumps\<close>.
\<close>

record 'dt handler_env =
  auth :: env
  dates :: "'dt time_lib"
  environ :: "string \<rightharpoonup> string"
  int_of_str :: "string \<Rightarrow> int option"
  b64decode_utf8 :: "string \<Rightarrow> exn + string"
  get_events :: "credentials \<Rightarrow> int \<Rightarrow> exn + dict list"
  analyze_events :: "dict list \<Rightarrow> int \<Rightarrow> exn + json"
  json_dumps :: "json \<Rightarrow> string"

text \<open>The dictionary the handler returns; \<open>headers\<close> is empty when the key is absent.\<close>

record response =
  statusCode :: int
  headers :: "(string \<times> string) list"
  body :: string

definition DEFAULT_DAYS :: int where
  "DEFAULT_DAYS = 7"

text \<open>\<^verbatim>\<open>int(x)\<close>\<close>

definition py_int :: "'dt handler_env \<Rightarrow> json \<Rightarrow> exn + int" where
  "py_int h x =
     (case x of
        JInt n \<Rightarrow> Inr n
      | JBool b \<Rightarrow> Inr (if b then 1 else 0)
      | JStr s \<Rightarrow>
          (case int_of_str h s of
             None \<Rightarrow> Inl (ValueError (''invalid literal for int() with base 10: '' @ quoted s))
           | Some n \<Rightarrow> Inr n)
      | _ \<Rightarrow> Inl (TypeError
                 (''int() argument must be a string, a bytes-like object or a real number, not ''
                  @ quoted (type_name x))))"

text \<open>
  Line 35:
  \<^verbatim>\<open>int(event.get('queryStringParameters', {}).get('days', DEFAULT_DAYS))\<close>
\<close>

definition parse_days :: "'dt handler_env \<Rightarrow> dict \<Rightarrow> exn + int" where
  "parse_days h event =
     and_then (get_method (dict_get event ''queryStringParameters'' (JObj []))) (\<lambda>q.
       py_int h (dict_get q ''days'' (JInt DEFAULT_DAYS)))"

text \<open>
  Lines 54-56: the file is opened for writing, which empties it, before the token is
  decoded.
\<close>

definition write_token_from_environment ::
  "'dt handler_env \<Rightarrow> world \<Rightarrow> (exn + unit) \<times> world" where
  "write_token_from_environment h w =
     (case environ h ''GOOGLE_TOKEN_JSON'' of
        None \<Rightarrow> (Inr (), w)
      | Some token_json \<Rightarrow>
          (if token_json = [] then (Inr (), w)
           else if ''/tmp/token.json'' \<in> unwritable (auth h)
             then (Inl (OSError ''/tmp/token.json''), w)
           else
             (case b64decode_utf8 h token_json of
                Inl x \<Rightarrow> (Inl x, snd (write_file (auth h) ''/tmp/token.json'' [] w))
              | Inr s \<Rightarrow> write_file (auth h) ''/tmp/token.json'' s w)))"

text \<open>Lines 65-90: events, formatting, the token file read back, analysis, the answer.\<close>

definition analyse_and_answer ::
  "'dt handler_env \<Rightarrow> int \<Rightarrow> credentials \<Rightarrow> world \<Rightarrow> (exn + response) \<times> world" where
  "analyse_and_answer h days_back creds w =
     (case and_then (get_events h creds days_back) (\<lambda>events.
             format_events (dates h) events True) of
        Inl x \<Rightarrow> (Inl x, w)
      | Inr formatted_events \<Rightarrow>
          (case (if exists w ''/tmp/token.json'' then read_file ''/tmp/token.json'' w
                 else (Inr [], w)) of
             (Inl x, w1) \<Rightarrow> (Inl x, w1)
           | (Inr updated_token, w1) \<Rightarrow>
               (case analyze_events h formatted_events days_back of
                  Inl x \<Rightarrow> (Inl x, w1)
                | Inr analysis_results \<Rightarrow>
                    (Inr \<lparr>statusCode = 200,
                          headers = [(''Content-Type'', ''application/json'')],
                          body = json_dumps h
                            (JObj [(''events_count'', JInt (int (length formatted_events))),
                                   (''days_analyzed'', JInt days_back),
                                   (''analysis'', analysis_results)])\<rparr>,
                     w1))))"

text \<open>Lines 38-44: the answer when the environment has no (or an empty) credentials variable.\<close>

definition not_configured :: "'dt handler_env \<Rightarrow> response" where
  "not_configured h =
     \<lparr>statusCode = 400, headers = [],
      body = json_dumps h
        (JObj [(''error'',
           JStr ''Google credentials not configured in environment variables'')])\<rparr>"

text \<open>Lines 34-90: the body of the \<^verbatim>\<open>try\<close>; \<open>Inl\<close> is an exception raised in it.\<close>

definition lambda_handler_try ::
  "'dt handler_env \<Rightarrow> dict \<Rightarrow> world \<Rightarrow> (exn + response) \<times> world" where
  "lambda_handler_try h event w =
     (case parse_days h event of
        Inl x \<Rightarrow> (Inl x, w)
      | Inr days_back \<Rightarrow>
          (case environ h ''GOOGLE_CREDENTIALS_JSON'' of
             None \<Rightarrow> (Inr (not_configured h), w)
           | Some c \<Rightarrow>
               (if c = [] then (Inr (not_configured h), w)
                else
                  (case b64decode_utf8 h c of
                     Inl x \<Rightarrow> (Inl x, w)
                   | Inr credentials_json \<Rightarrow>
                       (case write_file (auth h) ''/tmp/credentials.json'' credentials_json w of
                          (Inl x, w1) \<Rightarrow> (Inl x, w1)
                        | (Inr u, w1) \<Rightarrow>
                            (case write_token_from_environment h w1 of
                               (Inl x, w2) \<Rightarrow> (Inl x, w2)
                             | (Inr u', w2) \<Rightarrow>
                                 (case LambdaGoogleCalendarAPI_authenticate (auth h)
                                         ''/tmp/token.json''
                                         (environ h ''TOKEN_PARAMETER_NAME'') w2 of
                                    (Inl x, w3) \<Rightarrow> (Inl x, w3)
                                  | (Inr creds, w3) \<Rightarrow>
                                      analyse_and_answer h days_back creds w3)))))))"

text \<open>
  Lines 22-102: the handler. \<^verbatim>\<open>except Exception as e\<close> prints the exception and
  answers with status 500.
\<close>

definition lambda_handler :: "'dt handler_env \<Rightarrow> dict \<Rightarrow> world \<Rightarrow> response \<times> world" where
  "lambda_handler h event w =
     (case lambda_handler_try h event w of
        (Inr r, w1) \<Rightarrow> (r, w1)
      | (Inl x, w1) \<Rightarrow>
          (\<lparr>statusCode = 500, headers = [],
            body = json_dumps h
              (JObj [(''error'', JStr (''An error occurred: '' @ str_of_exn x))])\<rparr>,
           emit (Print (''Error: '' @ str_of_exn x)) w1))"

text \<open>
  A Lambda container with the credentials in the environment, and a text standing
  for the output of \<^verbatim>\<open>json.dumps\<close> that depends on the value only through its error
  message.
\<close>

definition ex_dumps :: "json \<Rightarrow> string" where
  "ex_dumps j =
     (case j of
        JObj [(k, JStr m)] \<Rightarrow> ''{\"'' @ k @ ''\": \"'' @ m @ ''\"}''
      | _ \<Rightarrow> ''{...}'')"

definition ex_handler_env :: "string handler_env" where
  "ex_handler_env =
     \<lparr>auth = ex_env, dates = ex_time,
      environ = [''GOOGLE_CREDENTIALS_JSON'' \<mapsto> ''Y2xpZW50LXNlY3JldHM=''],
      int_of_str = (\<lambda>s. if s = ''7'' then Some 7 else None),
      b64decode_utf8 = (\<lambda>s. if s = ''Y2xpZW50LXNlY3JldHM='' then Inr ''client-secrets''
                            else Inl (LibraryError ''Incorrect padding'')),
      get_events = (\<lambda>c d. Inr [ex_all_day, ex_timed]),
      analyze_events = (\<lambda>es d. Inr (JObj [(''summary'', JStr ''2 events'')])),
      json_dumps = ex_dumps\<rparr>"

definition ex_empty_world :: world where
  "ex_empty_world = \<lparr>files = Map.empty, ssm_params = Map.empty, trace = []\<rparr>"

section \<open>Unfolding\<close>

lemmas file_defs = read_file_def write_file_def exists_def emit_def

lemmas local_defs =
  GoogleCalendarAPI_authenticate_def authenticate_google_calendar_def renew_def
  load_token_file_def load_token_unguarded_def save_token_file_def interactive_grant_def
  do_refresh_def

lemmas lambda_defs =
  LambdaGoogleCalendarAPI_authenticate_def lambda_load_def load_remote_def load_local_def
  lambda_renew_def get_token_from_parameter_store_def save_token_to_parameter_store_def
  ssm_get_parameter_def

lemmas ex_defs =
  ex_valid_def ex_expired_def ex_fresh_def ex_stored_def ex_to_json_def ex_env_def
  ex_local_def ex_lambda_def from_authorized_user_info_def

section \<open>Scopes are never compared (C1)\<close>

text \<open>
  C1 says that a stored record whose expiry is in the future and whose granted scopes
  are a strict subset of the required ones is never treated as valid. It is: the text
  \<^verbatim>\<open>valid-json\<close> holds the record \<open>ex_valid\<close>, granted no scope at all, with an
  expiry 4000 seconds ahead. \<^verbatim>\<open>GoogleCalendarAPI._authenticate\<close> reads the token
  file, builds the credentials object with the required scopes in place of the
  granted ones, and returns it, with no refresh, no grant and no write.
\<close>

theorem scope_mismatch_counterexample:
  "authorized_user_info ex_env ''valid-json'' = Inr ex_valid
   \<and> set (scopes ex_valid) \<subset> set SCOPES
   \<and> expiry ex_valid = Some 5000 \<and> now ex_env = 1000 \<and> clock_skew ex_env = 225
   \<and> files (ex_local ''valid-json'') ''token.json'' = Some (File True ''valid-json'')
   \<and> GoogleCalendarAPI_authenticate ex_env ''credentials.json'' ''token.json''
        (ex_local ''valid-json'')
     = (Inr (ex_valid\<lparr>scopes := SCOPES\<rparr>),
        \<lparr>files = files (ex_local ''valid-json''), ssm_params = Map.empty,
         trace = [ReadFile ''token.json'']\<rparr>)"
  by (simp add: local_defs file_defs valid_def expired_def ex_defs SCOPES_def psubset_eq)

text \<open>
  C1 as amended: the granted scopes of a stored record are never compared with the
  required ones. When the stored text holds a record \<open>r\<close> with a token, not expired by
  the library's test, whose granted scopes are a strict subset of the required ones,
  the credentials object built from it (the record with the required scopes in place
  of the granted ones) is valid, and both \<^verbatim>\<open>GoogleCalendarAPI._authenticate\<close> (text
  in the token file) and \<^verbatim>\<open>LambdaGoogleCalendarAPI._authenticate\<close> (text in the
  parameter store) return it, the only effect being the read of the store.
\<close>

theorem scope_subset_record_is_returned:
  assumes "authorized_user_info e s = Inr r"
      and "token r \<noteq> None" and "\<not> expired e r"
      and "set (scopes r) \<subset> set SCOPES"
      and "files w token_path = Some (File True s)"
      and "name \<noteq> []" and "s \<noteq> []" and "ssm_get_error e = None"
      and "ssm_params v name = Some s"
  shows "valid e (r\<lparr>scopes := SCOPES\<rparr>)
       \<and> GoogleCalendarAPI_authenticate e credentials_path token_path w
           = (Inr (r\<lparr>scopes := SCOPES\<rparr>), emit (ReadFile token_path) w)
       \<and> LambdaGoogleCalendarAPI_authenticate e lambda_token_path (Some name) v
           = (Inr (r\<lparr>scopes := SCOPES\<rparr>), emit (SsmGet name) v)"
proof -
  have object: "from_authorized_user_info e s SCOPES = Inr (r\<lparr>scopes := SCOPES\<rparr>)"
    using assms(1) by (simp add: from_authorized_user_info_def)
  have ok: "valid e (r\<lparr>scopes := SCOPES\<rparr>)"
    using assms(2,3) by (simp add: valid_def expired_def)
  from object ok assms(5-9) show ?thesis
    by (simp add: local_defs lambda_defs file_defs)
qed

theorem scope_subset_record_is_returned_witness:
  "valid ex_env (ex_valid\<lparr>scopes := SCOPES\<rparr>)
   \<and> GoogleCalendarAPI_authenticate ex_env ''credentials.json'' ''token.json''
        (ex_local ''valid-json'')
       = (Inr (ex_valid\<lparr>scopes := SCOPES\<rparr>),
          emit (ReadFile ''token.json'') (ex_local ''valid-json''))
   \<and> LambdaGoogleCalendarAPI_authenticate ex_env ''/tmp/token.json'' (Some ''calendar-token'')
        (ex_lambda ''garbage'' ''valid-json'')
       = (Inr (ex_valid\<lparr>scopes := SCOPES\<rparr>),
          emit (SsmGet ''calendar-token'') (ex_lambda ''garbage'' ''valid-json''))"
proof (rule scope_subset_record_is_returned [where s = "''valid-json''"])
  show "authorized_user_info ex_env ''valid-json'' = Inr ex_valid"
    by (simp add: ex_defs)
  show "token ex_valid \<noteq> None" by (simp add: ex_defs)
  show "\<not> expired ex_env ex_valid" by (simp add: expired_def ex_defs)
  show "set (scopes ex_valid) \<subset> set SCOPES" by (simp add: ex_defs SCOPES_def psubset_eq)
  show "files (ex_local ''valid-json'') ''token.json'' = Some (File True ''valid-json'')"
    by (simp add: ex_defs)
  show "''calendar-token'' \<noteq> []" by simp
  show "''valid-json'' \<noteq> []" by simp
  show "ssm_get_error ex_env = None" by (simp add: ex_defs)
  show "ssm_params (ex_lambda ''garbage'' ''valid-json'') ''calendar-token'' = Some ''valid-json''"
    by (simp add: ex_defs)
qed

section \<open>A failed refresh is not followed by a grant (C2)\<close>

text \<open>
  C2 says that when the refresh is rejected and the context is interactive, the
  interactive grant is tried. It is not: with the client secrets in place and a
  local server that would succeed, the rejected refresh of \<open>ex_expired\<close> leaves
  \<^verbatim>\<open>GoogleCalendarAPI._authenticate\<close> as the exception, after the read and the refresh
  call only.
\<close>

theorem refresh_rejected_counterexample:
  "exists (ex_local ''expired-json'') ''credentials.json''
   \<and> run_local_server ex_env_revoked (Flow ''client-secrets'' SCOPES) = Inr ex_fresh
   \<and> GoogleCalendarAPI_authenticate ex_env_revoked ''credentials.json'' ''token.json''
        (ex_local ''expired-json'')
     = (Inl (RefreshError ''invalid_grant: Token has been expired or revoked.''),
        \<lparr>files = files (ex_local ''expired-json''), ssm_params = Map.empty,
         trace = [ReadFile ''token.json'', RefreshCall]\<rparr>)"
  by (simp add: local_defs file_defs valid_def expired_def ex_defs ex_env_revoked_def)

text \<open>
  C2 as amended: when the stored record is expired with a refresh token and the refresh
  raises, \<^verbatim>\<open>GoogleCalendarAPI._authenticate\<close> and \<^verbatim>\<open>authenticate_google_calendar\<close>
  end with that exception at once, whether or not the client secrets are there: the
  effects are the read of the token file and the refresh call, the interactive grant is
  not tried and nothing is written.
\<close>

theorem refresh_failure_propagates:
  assumes "from_authorized_user_info e s SCOPES = Inr r"
      and "expired e r" and "truthy (refresh_token r)"
      and "refresh e r = Inl x"
      and "files w token_path = Some (File True s)"
      and "files v ''token.json'' = Some (File True s)"
  shows "GoogleCalendarAPI_authenticate e credentials_path token_path w
           = (Inl x, emit RefreshCall (emit (ReadFile token_path) w))
       \<and> authenticate_google_calendar e v
           = (Inl x, emit RefreshCall (emit (ReadFile ''token.json'') v))"
  using assms by (simp add: local_defs file_defs valid_def)

theorem refresh_failure_propagates_witness:
  "GoogleCalendarAPI_authenticate ex_env_revoked ''credentials.json'' ''token.json''
       (ex_local ''expired-json'')
     = (Inl (RefreshError ''invalid_grant: Token has been expired or revoked.''),
        emit RefreshCall (emit (ReadFile ''token.json'') (ex_local ''expired-json'')))
   \<and> authenticate_google_calendar ex_env_revoked (ex_local ''expired-json'')
     = (Inl (RefreshError ''invalid_grant: Token has been expired or revoked.''),
        emit RefreshCall (emit (ReadFile ''token.json'') (ex_local ''expired-json'')))"
proof (rule refresh_failure_propagates [where s = "''expired-json''" and r = ex_expired])
  show "from_authorized_user_info ex_env_revoked ''expired-json'' SCOPES = Inr ex_expired"
    by (simp add: ex_defs ex_env_revoked_def)
  show "expired ex_env_revoked ex_expired" by (simp add: expired_def ex_defs ex_env_revoked_def)
  show "truthy (refresh_token ex_expired)" by (simp add: ex_defs)
  show "refresh ex_env_revoked ex_expired
          = Inl (RefreshError ''invalid_grant: Token has been expired or revoked.'')"
    by (simp add: ex_defs ex_env_revoked_def)
  show "files (ex_local ''expired-json'') ''token.json'' = Some (File True ''expired-json'')"
    by (simp add: ex_defs ex_env_revoked_def)
  then show "files (ex_local ''expired-json'') ''token.json'' = Some (File True ''expired-json'')" .
qed

section \<open>The Lambda variant never grants and never writes when it fails (C3)\<close>

lemma lambda_load_keeps_stores:
  assumes "lambda_load e token_path name w = (creds, w1)"
  shows "files w1 = files w \<and> ssm_params w1 = ssm_params w
       \<and> length (trace w) \<le> length (trace w1)
       \<and> (\<forall>x \<in> set (new_effects w w1). x \<noteq> LocalServer \<and> x \<noteq> RefreshCall \<and> \<not> is_write x)"
  using assms
  by (auto simp: lambda_load_def load_remote_def load_local_def
        get_token_from_parameter_store_def read_file_def emit_def new_effects_def
      split: option.splits sum.splits if_splits file_node.splits prod.splits)

text \<open>
  C3: in \<^verbatim>\<open>LambdaGoogleCalendarAPI._authenticate\<close>, when the load (parameter store,
  then local file) gives no credentials, or gives credentials that are neither valid
  nor expired with a refresh token, the run ends with a \<^verbatim>\<open>ValueError\<close> whose message
  says what is missing and how to get it; the files and the parameters of the store
  are as before, and the run made no interactive grant, no refresh call, no file write
  and no call to \<^verbatim>\<open>put_parameter\<close>.
\<close>

theorem lambda_no_usable_record_fails_cleanly:
  assumes "lambda_load e token_path name w = (creds, w1)"
      and "creds = None
           \<or> (\<exists>c. creds = Some c \<and> \<not> valid e c \<and> \<not> (expired e c \<and> truthy (refresh_token c)))"
  shows "LambdaGoogleCalendarAPI_authenticate e token_path name w
           = (Inl (ValueError
                (if creds = None
                 then ''No valid credentials found. Please run the authentication flow locally first.''
                 else ''Token is expired and can't be refreshed in Lambda environment. Please generate a new token using the local authentication flow.'')),
              w1)
       \<and> files w1 = files w \<and> ssm_params w1 = ssm_params w
       \<and> (\<forall>x \<in> set (new_effects w w1). x \<noteq> LocalServer \<and> x \<noteq> RefreshCall \<and> \<not> is_write x)"
proof -
  have run: "LambdaGoogleCalendarAPI_authenticate e token_path name w
               = lambda_renew e token_path name creds w1"
    using assms(1) by (simp add: LambdaGoogleCalendarAPI_authenticate_def)
  have "lambda_renew e token_path name creds w1
          = (Inl (ValueError
                (if creds = None
                 then ''No valid credentials found. Please run the authentication flow locally first.''
                 else ''Token is expired and can't be refreshed in Lambda environment. Please generate a new token using the local authentication flow.'')),
              w1)"
    using assms(2) by (auto simp: lambda_renew_def)
  with run lambda_load_keeps_stores [OF assms(1)] show ?thesis by simp
qed

theorem lambda_no_usable_record_fails_cleanly_witness:
  "LambdaGoogleCalendarAPI_authenticate ex_env ''/tmp/token.json'' (Some ''calendar-token'')
       (ex_lambda ''garbage'' '''')
     = (Inl (ValueError
          ''No valid credentials found. Please run the authentication flow locally first.''),
        \<lparr>files = files (ex_lambda ''garbage'' ''''),
         ssm_params = ssm_params (ex_lambda ''garbage'' ''''),
         trace = [SsmGet ''calendar-token'', ReadFile ''/tmp/token.json'',
                  Print ''Error loading token from file: Expecting value: line 1 column 1 (char 0)'']\<rparr>)"
proof -
  let ?w1 = "\<lparr>files = files (ex_lambda ''garbage'' ''''),
         ssm_params = ssm_params (ex_lambda ''garbage'' ''''),
         trace = [SsmGet ''calendar-token'', ReadFile ''/tmp/token.json'',
                  Print ''Error loading token from file: Expecting value: line 1 column 1 (char 0)'']\<rparr>"
  have load: "lambda_load ex_env ''/tmp/token.json'' (Some ''calendar-token'')
                (ex_lambda ''garbage'' '''') = (None, ?w1)"
    by (simp add: lambda_defs file_defs ex_defs)
  have none: "(None :: credentials option) = None
           \<or> (\<exists>c. None = Some c \<and> \<not> valid ex_env c
                  \<and> \<not> (expired ex_env c \<and> truthy (refresh_token c)))"
    by simp
  from lambda_no_usable_record_fails_cleanly [OF load none] show ?thesis by simp
qed

section \<open>A valid record is returned without any call (C4)\<close>




section \<open>Refresh of an expired record (C5)\<close>

text \<open>
  C5: a stored record that is expired and has a refresh token is refreshed, by exactly
  one refresh call and no grant. When the provider answers with credentials \<open>r'\<close>, they
  are written to the token file (and, in the Lambda variant, to the parameter store)
  before the routine returns them. When the stored text reads back as \<open>r'\<close> and \<open>r'\<close> is
  valid, the next call returns \<open>r'\<close> after reading the store only.
\<close>

theorem expired_record_refreshed_once_and_persisted:
  assumes "from_authorized_user_info e s SCOPES = Inr r"
      and "expired e r" and "truthy (refresh_token r)"
      and "refresh e r = Inr r'"
      and "from_authorized_user_info e (to_json e r') SCOPES = Inr r'"
      and "valid e r'"
      and "files w token_path = Some (File True s)"
      and "token_path \<notin> unwritable e"
      and "lambda_token_path \<notin> unwritable e"
      and "name \<noteq> []" and "s \<noteq> []" and "to_json e r' \<noteq> []"
      and "ssm_get_error e = None" and "ssm_put_error e = None"
      and "ssm_params v name = Some s"
  shows "GoogleCalendarAPI_authenticate e credentials_path token_path w
           = (Inr r',
              w\<lparr>files := (files w)(token_path \<mapsto> File True (to_json e r')),
                trace := trace w @ [ReadFile token_path, RefreshCall,
                                    WriteFile token_path (to_json e r')]\<rparr>)
       \<and> GoogleCalendarAPI_authenticate e credentials_path token_path
             (snd (GoogleCalendarAPI_authenticate e credentials_path token_path w))
           = (Inr r',
              emit (ReadFile token_path)
                (snd (GoogleCalendarAPI_authenticate e credentials_path token_path w)))
       \<and> LambdaGoogleCalendarAPI_authenticate e lambda_token_path (Some name) v
           = (Inr r',
              v\<lparr>files := (files v)(lambda_token_path \<mapsto>
                          File (case files v lambda_token_path of
                                  None \<Rightarrow> True | Some n \<Rightarrow> readable n) (to_json e r')),
                ssm_params := (ssm_params v)(name \<mapsto> to_json e r'),
                trace := trace v @ [SsmGet name, RefreshCall,
                                    WriteFile lambda_token_path (to_json e r'),
                                    SsmPut name (to_json e r')]\<rparr>)
       \<and> LambdaGoogleCalendarAPI_authenticate e lambda_token_path (Some name)
             (snd (LambdaGoogleCalendarAPI_authenticate e lambda_token_path (Some name) v))
           = (Inr r',
              emit (SsmGet name)
                (snd (LambdaGoogleCalendarAPI_authenticate e lambda_token_path (Some name) v)))"
proof -
  have nv: "\<not> valid e r" using assms(2) by (simp add: valid_def)
  have first: "GoogleCalendarAPI_authenticate e credentials_path token_path w
           = (Inr r',
              w\<lparr>files := (files w)(token_path \<mapsto> File True (to_json e r')),
                trace := trace w @ [ReadFile token_path, RefreshCall,
                                    WriteFile token_path (to_json e r')]\<rparr>)"
    using assms nv by (simp add: local_defs file_defs)
  have second: "GoogleCalendarAPI_authenticate e credentials_path token_path
             (w\<lparr>files := (files w)(token_path \<mapsto> File True (to_json e r')),
                trace := trace w @ [ReadFile token_path, RefreshCall,
                                    WriteFile token_path (to_json e r')]\<rparr>)
           = (Inr r',
              emit (ReadFile token_path)
                (w\<lparr>files := (files w)(token_path \<mapsto> File True (to_json e r')),
                   trace := trace w @ [ReadFile token_path, RefreshCall,
                                    WriteFile token_path (to_json e r')]\<rparr>))"
    using assms by (simp add: local_defs file_defs)
  have lfirst: "LambdaGoogleCalendarAPI_authenticate e lambda_token_path (Some name) v
           = (Inr r',
              v\<lparr>files := (files v)(lambda_token_path \<mapsto>
                          File (case files v lambda_token_path of
                                  None \<Rightarrow> True | Some n \<Rightarrow> readable n) (to_json e r')),
                ssm_params := (ssm_params v)(name \<mapsto> to_json e r'),
                trace := trace v @ [SsmGet name, RefreshCall,
                                    WriteFile lambda_token_path (to_json e r'),
                                    SsmPut name (to_json e r')]\<rparr>)"
    using assms nv by (simp add: lambda_defs do_refresh_def file_defs)
  have lsecond: "LambdaGoogleCalendarAPI_authenticate e lambda_token_path (Some name)
             (v\<lparr>files := (files v)(lambda_token_path \<mapsto>
                          File (case files v lambda_token_path of
                                  None \<Rightarrow> True | Some n \<Rightarrow> readable n) (to_json e r')),
                ssm_params := (ssm_params v)(name \<mapsto> to_json e r'),
                trace := trace v @ [SsmGet name, RefreshCall,
                                    WriteFile lambda_token_path (to_json e r'),
                                    SsmPut name (to_json e r')]\<rparr>)
           = (Inr r',
              emit (SsmGet name)
             (v\<lparr>files := (files v)(lambda_token_path \<mapsto>
                          File (case files v lambda_token_path of
                                  None \<Rightarrow> True | Some n \<Rightarrow> readable n) (to_json e r')),
                ssm_params := (ssm_params v)(name \<mapsto> to_json e r'),
                trace := trace v @ [SsmGet name, RefreshCall,
                                    WriteFile lambda_token_path (to_json e r'),
                                    SsmPut name (to_json e r')]\<rparr>))"
    using assms by (simp add: lambda_defs do_refresh_def file_defs)
  show ?thesis
    unfolding first lfirst snd_conv using second lsecond by simp
qed

theorem expired_record_refreshed_once_and_persisted_witness:
  "GoogleCalendarAPI_authenticate ex_env ''credentials.json'' ''token.json''
       (ex_local ''expired-json'')
     = (Inr ex_fresh,
        (ex_local ''expired-json'')
          \<lparr>files := (files (ex_local ''expired-json''))
                      (''token.json'' \<mapsto> File True (to_json ex_env ex_fresh)),
           trace := trace (ex_local ''expired-json'')
                      @ [ReadFile ''token.json'', RefreshCall,
                         WriteFile ''token.json'' (to_json ex_env ex_fresh)]\<rparr>)
   \<and> GoogleCalendarAPI_authenticate ex_env ''credentials.json'' ''token.json''
       (snd (GoogleCalendarAPI_authenticate ex_env ''credentials.json'' ''token.json''
               (ex_local ''expired-json'')))
     = (Inr ex_fresh,
        emit (ReadFile ''token.json'')
          (snd (GoogleCalendarAPI_authenticate ex_env ''credentials.json'' ''token.json''
                  (ex_local ''expired-json''))))
   \<and> LambdaGoogleCalendarAPI_authenticate ex_env ''/tmp/token.json''
       (Some ''calendar-token'') (ex_lambda ''garbage'' ''expired-json'')
     = (Inr ex_fresh,
        (ex_lambda ''garbage'' ''expired-json'')
          \<lparr>files := (files (ex_lambda ''garbage'' ''expired-json''))
                      (''/tmp/token.json'' \<mapsto>
                         File (case files (ex_lambda ''garbage'' ''expired-json'')
                                      ''/tmp/token.json'' of
                                 None \<Rightarrow> True | Some n \<Rightarrow> readable n)
                           (to_json ex_env ex_fresh)),
           ssm_params := (ssm_params (ex_lambda ''garbage'' ''expired-json''))
                           (''calendar-token'' \<mapsto> to_json ex_env ex_fresh),
           trace := trace (ex_lambda ''garbage'' ''expired-json'')
                      @ [SsmGet ''calendar-token'', RefreshCall,
                         WriteFile ''/tmp/token.json'' (to_json ex_env ex_fresh),
                         SsmPut ''calendar-token'' (to_json ex_env ex_fresh)]\<rparr>)
   \<and> LambdaGoogleCalendarAPI_authenticate ex_env ''/tmp/token.json''
       (Some ''calendar-token'')
       (snd (LambdaGoogleCalendarAPI_authenticate ex_env ''/tmp/token.json''
               (Some ''calendar-token'') (ex_lambda ''garbage'' ''expired-json'')))
     = (Inr ex_fresh,
        emit (SsmGet ''calendar-token'')
          (snd (LambdaGoogleCalendarAPI_authenticate ex_env ''/tmp/token.json''
                  (Some ''calendar-token'') (ex_lambda ''garbage'' ''expired-json''))))"
proof -
  have p: "from_authorized_user_info ex_env ''expired-json'' SCOPES = Inr ex_expired"
    by (simp add: ex_defs)
  have x: "expired ex_env ex_expired" by (simp add: expired_def ex_defs)
  have t: "truthy (refresh_token ex_expired)" by (simp add: ex_defs)
  have r: "refresh ex_env ex_expired = Inr ex_fresh" by (simp add: ex_defs)
  have b: "from_authorized_user_info ex_env (to_json ex_env ex_fresh) SCOPES = Inr ex_fresh"
    by (simp add: ex_defs)
  have v: "valid ex_env ex_fresh" by (simp add: valid_def expired_def ex_defs)
  have f: "files (ex_local ''expired-json'') ''token.json'' = Some (File True ''expired-json'')"
    by (simp add: ex_defs)
  have u1: "''token.json'' \<notin> unwritable ex_env" by (simp add: ex_defs)
  have u2: "''/tmp/token.json'' \<notin> unwritable ex_env" by (simp add: ex_defs)
  have n: "''calendar-token'' \<noteq> []" and s: "''expired-json'' \<noteq> []" by simp_all
  have j: "to_json ex_env ex_fresh \<noteq> []" by (simp add: ex_defs)
  have g: "ssm_get_error ex_env = None" and q: "ssm_put_error ex_env = None"
    by (simp_all add: ex_defs)
  have m: "ssm_params (ex_lambda ''garbage'' ''expired-json'') ''calendar-token''
             = Some ''expired-json''"
    by (simp add: ex_defs)
  show ?thesis
    by (rule expired_record_refreshed_once_and_persisted [OF p x t r b v f u1 u2 n s j g q m])
qed

section \<open>Order of the stores in the Lambda variant (C6)\<close>

lemma lambda_renew_effects:
  assumes "lambda_renew e token_path name creds w1 = (res, w')"
  shows "\<exists>ps. trace w' = trace w1 @ ps \<and> (\<forall>x \<in> set ps. \<not> is_read x \<and> \<not> is_ssm_get x)"
  using assms
  by (auto simp: lambda_renew_def do_refresh_def write_file_def emit_def
        save_token_to_parameter_store_def
      split: option.splits sum.splits if_splits prod.splits)

lemma load_remote_effects:
  assumes "name \<noteq> []" and "load_remote e (Some name) w = (creds, w1)"
  shows "\<exists>ps. trace w1 = trace w @ SsmGet name # ps
            \<and> (\<forall>x \<in> set ps. \<not> is_read x \<and> \<not> is_ssm_get x)"
  using assms
  by (auto simp: load_remote_def get_token_from_parameter_store_def emit_def
      split: option.splits sum.splits if_splits prod.splits)

lemma load_local_effects:
  assumes "load_local e token_path creds w1 = (creds', w2)"
  shows "\<exists>ps. trace w2 = trace w1 @ ps \<and> (\<forall>x \<in> set ps. \<not> is_ssm_get x)
            \<and> (creds \<noteq> None \<longrightarrow> ps = [])"
  using assms
  by (auto simp: load_local_def read_file_def emit_def
      split: option.splits sum.splits if_splits prod.splits file_node.splits)

lemma lambda_run_effects:
  assumes "name \<noteq> []"
      and "LambdaGoogleCalendarAPI_authenticate e token_path (Some name) w = (res, w')"
  shows "\<exists>ps. new_effects w w' = SsmGet name # ps
            \<and> (\<forall>x \<in> set ps. \<not> is_ssm_get x)
            \<and> (fst (load_remote e (Some name) w) \<noteq> None \<longrightarrow> (\<forall>x \<in> set ps. \<not> is_read x))"
proof -
  obtain creds w1 where a: "load_remote e (Some name) w = (creds, w1)"
    by (cases "load_remote e (Some name) w")
  obtain creds' w2 where b: "load_local e token_path creds w1 = (creds', w2)"
    by (cases "load_local e token_path creds w1")
  have c: "lambda_renew e token_path (Some name) creds' w2 = (res, w')"
    using assms(2) a b by (simp add: LambdaGoogleCalendarAPI_authenticate_def lambda_load_def)
  from load_remote_effects [OF assms(1) a] obtain ps where
    ps: "trace w1 = trace w @ SsmGet name # ps" "\<forall>x \<in> set ps. \<not> is_read x \<and> \<not> is_ssm_get x"
    by blast
  from load_local_effects [OF b] obtain qs where
    qs: "trace w2 = trace w1 @ qs" "\<forall>x \<in> set qs. \<not> is_ssm_get x" "creds \<noteq> None \<longrightarrow> qs = []"
    by blast
  from lambda_renew_effects [OF c] obtain rs where
    rs: "trace w' = trace w2 @ rs" "\<forall>x \<in> set rs. \<not> is_read x \<and> \<not> is_ssm_get x"
    by blast
  have "new_effects w w' = SsmGet name # (ps @ qs @ rs)"
    using ps(1) qs(1) rs(1) by (simp add: new_effects_def)
  moreover have "\<forall>x \<in> set (ps @ qs @ rs). \<not> is_ssm_get x"
    using ps(2) qs(2) rs(2) by auto
  moreover have "fst (load_remote e (Some name) w) \<noteq> None
                   \<longrightarrow> (\<forall>x \<in> set (ps @ qs @ rs). \<not> is_read x)"
    using a ps(2) qs(3) rs(2) by auto
  ultimately show ?thesis by blast
qed



section \<open>A failed save to the parameter store (C7)\<close>

text \<open>
  C7 says that after a failed save to the remote store the manager loads from the
  store once more. It does not: with a parameter store that rejects the write, the
  run on the expired record \<open>ex_expired\<close> calls \<^verbatim>\<open>get_parameter\<close> once, at the start,
  refreshes, writes the local file, calls \<^verbatim>\<open>put_parameter\<close>, prints the error and
  returns the refreshed credentials; the parameter keeps its old value.
\<close>

theorem save_conflict_counterexample:
  "ssm_put_error ex_env_conflict = Some (LibraryError ''TooManyUpdates'')
   \<and> LambdaGoogleCalendarAPI_authenticate ex_env_conflict ''/tmp/token.json''
        (Some ''calendar-token'') (ex_lambda ''garbage'' ''expired-json'')
     = (Inr ex_fresh,
        \<lparr>files = [''/tmp/token.json'' \<mapsto> File True ''fresh-json''],
         ssm_params = [''calendar-token'' \<mapsto> ''expired-json''],
         trace = [SsmGet ''calendar-token'', RefreshCall,
                  WriteFile ''/tmp/token.json'' ''fresh-json'',
                  SsmPut ''calendar-token'' ''fresh-json'',
                  Print ''Error saving token to Parameter Store: TooManyUpdates'']\<rparr>)"
  by (simp add: lambda_defs do_refresh_def file_defs valid_def expired_def ex_defs ex_env_conflict_def)

text \<open>
  C7 as amended: when \<^verbatim>\<open>put_parameter\<close> raises after a refresh,
  \<^verbatim>\<open>LambdaGoogleCalendarAPI._authenticate\<close> prints the error and returns the refreshed
  credentials, which it has written to the local token file; the parameter store is
  left as it was and is not read again. Every run calls \<^verbatim>\<open>get_parameter\<close> exactly
  once, as its first effect.
\<close>

theorem save_failure_is_printed_and_ignored:
  assumes "lambda_load e token_path (Some name) w = (Some c, w1)"
      and "expired e c" and "truthy (refresh_token c)"
      and "refresh e c = Inr c'"
      and "token_path \<notin> unwritable e"
      and "name \<noteq> []"
      and "ssm_put_error e = Some x"
  shows "LambdaGoogleCalendarAPI_authenticate e token_path (Some name) w
           = (Inr c',
              w1\<lparr>files := (files w1)(token_path \<mapsto>
                           File (case files w1 token_path of
                                   None \<Rightarrow> True | Some n \<Rightarrow> readable n) (to_json e c')),
                 trace := trace w1 @ [RefreshCall,
                            WriteFile token_path (to_json e c'),
                            SsmPut name (to_json e c'),
                            Print (''Error saving token to Parameter Store: '' @ str_of_exn x)]\<rparr>)
       \<and> ssm_params w1 = ssm_params w
       \<and> filter is_ssm_get
            (new_effects w (snd (LambdaGoogleCalendarAPI_authenticate e token_path (Some name) w)))
           = [SsmGet name]"
proof -
  have nv: "\<not> valid e c" using assms(2) by (simp add: valid_def)
  have run: "LambdaGoogleCalendarAPI_authenticate e token_path (Some name) w
           = (Inr c',
              w1\<lparr>files := (files w1)(token_path \<mapsto>
                           File (case files w1 token_path of
                                   None \<Rightarrow> True | Some n \<Rightarrow> readable n) (to_json e c')),
                 trace := trace w1 @ [RefreshCall,
                            WriteFile token_path (to_json e c'),
                            SsmPut name (to_json e c'),
                            Print (''Error saving token to Parameter Store: '' @ str_of_exn x)]\<rparr>)"
    using assms nv
    by (simp add: LambdaGoogleCalendarAPI_authenticate_def lambda_renew_def do_refresh_def
          write_file_def save_token_to_parameter_store_def emit_def)
  have keep: "ssm_params w1 = ssm_params w"
    using lambda_load_keeps_stores [OF assms(1)] by simp
  obtain res w' where rw:
    "LambdaGoogleCalendarAPI_authenticate e token_path (Some name) w = (res, w')"
    by (cases "LambdaGoogleCalendarAPI_authenticate e token_path (Some name) w")
  from lambda_run_effects [OF assms(6) rw] obtain ps where
    "new_effects w w' = SsmGet name # ps" "\<forall>x \<in> set ps. \<not> is_ssm_get x"
    by blast
  then have "filter is_ssm_get (new_effects w w') = [SsmGet name]"
    by (simp add: filter_empty_conv)
  then have once: "filter is_ssm_get
            (new_effects w (snd (LambdaGoogleCalendarAPI_authenticate e token_path (Some name) w)))
           = [SsmGet name]"
    by (simp add: rw)
  from run keep once show ?thesis by blast
qed

theorem save_failure_is_printed_and_ignored_witness:
  "fst (LambdaGoogleCalendarAPI_authenticate ex_env_conflict ''/tmp/token.json''
        (Some ''calendar-token'') (ex_lambda ''garbage'' ''expired-json'')) = Inr ex_fresh
   \<and> filter is_ssm_get
        (new_effects (ex_lambda ''garbage'' ''expired-json'')
           (snd (LambdaGoogleCalendarAPI_authenticate ex_env_conflict ''/tmp/token.json''
                   (Some ''calendar-token'') (ex_lambda ''garbage'' ''expired-json''))))
       = [SsmGet ''calendar-token'']"
proof -
  have l: "lambda_load ex_env_conflict ''/tmp/token.json'' (Some ''calendar-token'')
             (ex_lambda ''garbage'' ''expired-json'')
           = (Some ex_expired, emit (SsmGet ''calendar-token'') (ex_lambda ''garbage'' ''expired-json''))"
    by (simp add: lambda_defs file_defs ex_defs ex_env_conflict_def)
  have x: "expired ex_env_conflict ex_expired" by (simp add: expired_def ex_defs ex_env_conflict_def)
  have t: "truthy (refresh_token ex_expired)" by (simp add: ex_defs ex_env_conflict_def)
  have r: "refresh ex_env_conflict ex_expired = Inr ex_fresh" by (simp add: ex_defs ex_env_conflict_def)
  have u: "''/tmp/token.json'' \<notin> unwritable ex_env_conflict" by (simp add: ex_defs ex_env_conflict_def)
  have n: "''calendar-token'' \<noteq> []" by simp
  have q: "ssm_put_error ex_env_conflict = Some (LibraryError ''TooManyUpdates'')"
    by (simp add: ex_defs ex_env_conflict_def)
  note th = save_failure_is_printed_and_ignored [OF l x t r u n q]
  from th have a: "fst (LambdaGoogleCalendarAPI_authenticate ex_env_conflict ''/tmp/token.json''
        (Some ''calendar-token'') (ex_lambda ''garbage'' ''expired-json'')) = Inr ex_fresh"
    by (simp only: fst_conv)
  from th a show ?thesis by blast
qed

section \<open>A malformed or unreadable token file (C8)\<close>

text \<open>
  C8 says that with a malformed token file the run goes on to get credentials again
  instead of failing. In the Lambda variant it cannot: the malformed file is printed
  and taken as absent, and the run then ends with the \<^verbatim>\<open>ValueError\<close> of line 138.
\<close>

theorem malformed_token_file_counterexample:
  "files (ex_lambda ''garbage'' '''') ''/tmp/token.json'' = Some (File True ''garbage'')
   \<and> from_authorized_user_info ex_env ''garbage'' SCOPES
       = Inl (ValueError ''Expecting value: line 1 column 1 (char 0)'')
   \<and> LambdaGoogleCalendarAPI_authenticate ex_env ''/tmp/token.json'' None
        (ex_lambda ''garbage'' '''')
     = (Inl (ValueError
          ''No valid credentials found. Please run the authentication flow locally first.''),
        \<lparr>files = files (ex_lambda ''garbage'' ''''),
         ssm_params = ssm_params (ex_lambda ''garbage'' ''''),
         trace = [ReadFile ''/tmp/token.json'',
                  Print ''Error loading token from file: Expecting value: line 1 column 1 (char 0)'']\<rparr>)"
  by (simp add: lambda_defs file_defs ex_defs)

text \<open>
  C8 as amended: when the token file cannot be opened or its text is rejected by
  \<^verbatim>\<open>from_authorized_user_info\<close>, the load of \<^verbatim>\<open>GoogleCalendarAPI._authenticate\<close>
  and of \<^verbatim>\<open>LambdaGoogleCalendarAPI._authenticate\<close> prints the error and gives no
  credentials instead of raising. \<^verbatim>\<open>GoogleCalendarAPI._authenticate\<close> then goes on to
  the interactive grant and the save of its result;
  \<^verbatim>\<open>LambdaGoogleCalendarAPI._authenticate\<close>, with no credentials from the parameter
  store either, ends with the \<^verbatim>\<open>ValueError\<close> ``No valid credentials found''.
\<close>

theorem bad_token_file_is_taken_as_absent:
  assumes "files w token_path = Some (File rd s)"
      and "\<not> rd \<or> (\<exists>x. from_authorized_user_info e s SCOPES = Inl x)"
  shows "\<exists>m. load_token_file e token_path w
               = (None, emit (Print (''Error loading token: '' @ m))
                          (emit (ReadFile token_path) w))
           \<and> GoogleCalendarAPI_authenticate e credentials_path token_path w
               = save_token_file e token_path
                   (interactive_grant e credentials_path
                      (credentials_path @
                         '' file not found. Please download it from Google Cloud Console and save it in the current directory.'')
                      (emit (Print (''Error loading token: '' @ m))
                         (emit (ReadFile token_path) w)))
           \<and> lambda_load e token_path None w
               = (None, emit (Print (''Error loading token from file: '' @ m))
                          (emit (ReadFile token_path) w))
           \<and> LambdaGoogleCalendarAPI_authenticate e token_path None w
               = (Inl (ValueError
                    ''No valid credentials found. Please run the authentication flow locally first.''),
                  emit (Print (''Error loading token from file: '' @ m))
                    (emit (ReadFile token_path) w))"
proof (cases rd)
  case False
  with assms(1) show ?thesis
    by (intro exI [of _ "str_of_exn (OSError token_path)"])
       (simp add: GoogleCalendarAPI_authenticate_def load_token_file_def renew_def
          lambda_defs read_file_def exists_def)
next
  case True
  with assms(2) obtain x where "from_authorized_user_info e s SCOPES = Inl x" by blast
  with True assms(1) show ?thesis
    by (intro exI [of _ "str_of_exn x"])
       (simp add: GoogleCalendarAPI_authenticate_def load_token_file_def renew_def
          lambda_defs read_file_def exists_def)
qed

theorem bad_token_file_is_taken_as_absent_witness:
  "\<exists>m. load_token_file ex_env ''token.json'' (ex_local ''garbage'')
          = (None, emit (Print (''Error loading token: '' @ m))
                     (emit (ReadFile ''token.json'') (ex_local ''garbage'')))
      \<and> GoogleCalendarAPI_authenticate ex_env ''credentials.json'' ''token.json''
            (ex_local ''garbage'')
          = save_token_file ex_env ''token.json''
              (interactive_grant ex_env ''credentials.json''
                 (''credentials.json'' @
                    '' file not found. Please download it from Google Cloud Console and save it in the current directory.'')
                 (emit (Print (''Error loading token: '' @ m))
                    (emit (ReadFile ''token.json'') (ex_local ''garbage''))))
      \<and> lambda_load ex_env ''token.json'' None (ex_local ''garbage'')
          = (None, emit (Print (''Error loading token from file: '' @ m))
                     (emit (ReadFile ''token.json'') (ex_local ''garbage'')))
      \<and> LambdaGoogleCalendarAPI_authenticate ex_env ''token.json'' None (ex_local ''garbage'')
          = (Inl (ValueError
               ''No valid credentials found. Please run the authentication flow locally first.''),
             emit (Print (''Error loading token from file: '' @ m))
               (emit (ReadFile ''token.json'') (ex_local ''garbage'')))"
proof (rule bad_token_file_is_taken_as_absent [where rd = True and s = "''garbage''"])
  show "files (ex_local ''garbage'') ''token.json'' = Some (File True ''garbage'')"
    by (simp add: ex_defs)
  show "\<not> True \<or> (\<exists>x. from_authorized_user_info ex_env ''garbage'' SCOPES = Inl x)"
    by (simp add: ex_defs)
qed

text \<open>
  The third routine, \<^verbatim>\<open>authenticate_google_calendar\<close>, has no handler around the load:
  on the same file the exception leaves the function.
\<close>

lemma authenticate_google_calendar_bad_token_file:
  assumes "files w ''token.json'' = Some (File True s)"
      and "from_authorized_user_info e s SCOPES = Inl x"
  shows "authenticate_google_calendar e w = (Inl x, emit (ReadFile ''token.json'') w)"
  using assms
  by (simp add: authenticate_google_calendar_def load_token_unguarded_def read_file_def
        exists_def)

section \<open>format\_events (C10)\<close>

lemmas format_defs =
  format_event_def start_end_def format_times_def details_def time_value_def
  dict_get_def dict_item_def has_key_def get_method_def py_iter_def strptime_def parse_def
  minus_one_day_def and_then_def

lemmas ex_event_defs = ex_time_def ex_all_day_def ex_timed_def ex_bare_def quoted_def

lemma is_dict_JObj: "is_dict x \<Longrightarrow> \<exists>d. x = JObj d"
  by (cases x) (simp_all add: is_dict_def)

lemma attendee_emails_total:
  "list_all is_dict xs \<Longrightarrow> \<exists>r. attendee_emails xs = Inr r"
  by (induction xs)
     (auto simp: is_dict_def get_method_def and_then_def split: json.splits)

lemma details_total:
  assumes "details_accepted event"
  shows "\<exists>d. details event = Inr d"
proof -
  obtain c where c: "get_method (dict_get event ''creator'' (JObj [])) = Inr c"
    using assms by (auto simp: details_accepted_def is_dict_def get_method_def split: json.splits)
  obtain g where g: "get_method (dict_get event ''organizer'' (JObj [])) = Inr g"
    using assms by (auto simp: details_accepted_def is_dict_def get_method_def split: json.splits)
  obtain xs where xs: "py_iter (dict_get event ''attendees'' (JList [])) = Inr xs"
    and all: "list_all is_dict xs"
    using assms by (auto simp: details_accepted_def py_iter_def split: json.splits)
  from attendee_emails_total [OF all] obtain r where "attendee_emails xs = Inr r" ..
  with c g xs show ?thesis by (simp add: details_def and_then_def)
qed

lemma format_times_total:
  assumes "times_accepted lib sd ed"
  shows "\<exists>p. format_times lib (time_value sd) (time_value ed)
               (has_key sd ''date'' \<and> \<not> has_key sd ''dateTime'') = Inr p"
  using assms
  by (auto simp: times_accepted_def format_times_def is_ok_def and_then_def minus_one_day_def
      split: sum.splits if_splits)

lemma well_formed_event_formats:
  assumes "well_formed_event lib include_details event"
  shows "\<exists>f. format_event lib event include_details = Inr f"
proof -
  from assms obtain s0 e0 where
    s0: "map_of event ''start'' = Some s0" and e0: "map_of event ''end'' = Some e0"
    and ds: "is_dict s0" and de: "is_dict e0"
    and t0: "times_accepted lib (entries s0) (entries e0)"
    and d: "include_details \<longrightarrow> details_accepted event"
    by (auto simp: well_formed_event_def split: option.splits)
  from ds de obtain sd ed where "s0 = JObj sd" and "e0 = JObj ed"
    using is_dict_JObj by blast
  with s0 e0 t0 have
    s: "map_of event ''start'' = Some (JObj sd)" and e: "map_of event ''end'' = Some (JObj ed)"
    and t: "times_accepted lib sd ed"
    by (simp_all add: entries_def)
  have se: "start_end event
              = Inr (time_value sd, time_value ed,
                     has_key sd ''date'' \<and> \<not> has_key sd ''dateTime'')"
    using s e by (simp add: start_end_def dict_item_def get_method_def and_then_def)
  from format_times_total [OF t] obtain a b where
    ft: "format_times lib (time_value sd) (time_value ed)
           (has_key sd ''date'' \<and> \<not> has_key sd ''dateTime'') = Inr (a, b)"
    by (cases) auto
  show ?thesis
  proof (cases include_details)
    case True
    with d details_total obtain x where "details event = Inr x" by blast
    with se ft True show ?thesis by (simp add: format_event_def and_then_def)
  next
    case False
    with se ft show ?thesis by (simp add: format_event_def and_then_def)
  qed
qed

lemma get_method_Inr: "get_method x = Inr d \<Longrightarrow> x = JObj d"
  by (cases x) (simp_all add: get_method_def)

lemma attendee_emails_Inr:
  "attendee_emails xs = Inr r \<Longrightarrow> list_all is_dict xs"
proof (induction xs arbitrary: r)
  case Nil
  then show ?case by simp
next
  case (Cons a as)
  from Cons.prems obtain d rest where d: "get_method a = Inr d"
    and rest: "attendee_emails as = Inr rest"
    by (auto simp: and_then_def split: sum.splits)
  from get_method_Inr [OF d] have "is_dict a" by (simp add: is_dict_def)
  with Cons.IH [OF rest] show ?case by simp
qed

lemma attendee_emails_strings:
  "attendee_emails (map f ys) = Inr r \<Longrightarrow> (\<forall>y. \<exists>s. f y = JStr s) \<Longrightarrow> ys = []"
proof (cases ys)
  case Nil
  then show ?thesis by simp
next
  case (Cons y zs)
  assume str: "\<forall>y. \<exists>s. f y = JStr s" and run: "attendee_emails (map f ys) = Inr r"
  from str obtain s where "f y = JStr s" by blast
  with run Cons show ?thesis by (simp add: and_then_def get_method_def)
qed

lemma details_Inr:
  assumes "details event = Inr d"
  shows "details_accepted event"
proof -
  from assms obtain c g xs r where
    c: "get_method (dict_get event ''creator'' (JObj [])) = Inr c"
    and g: "get_method (dict_get event ''organizer'' (JObj [])) = Inr g"
    and xs: "py_iter (dict_get event ''attendees'' (JList [])) = Inr xs"
    and r: "attendee_emails xs = Inr r"
    by (auto simp: details_def and_then_def split: sum.splits)
  have dc: "is_dict (dict_get event ''creator'' (JObj []))"
    using get_method_Inr [OF c] by (simp add: is_dict_def)
  have dg: "is_dict (dict_get event ''organizer'' (JObj []))"
    using get_method_Inr [OF g] by (simp add: is_dict_def)
  have da: "(case dict_get event ''attendees'' (JList []) of
               JList xs \<Rightarrow> list_all is_dict xs
             | JObj d \<Rightarrow> d = []
             | JStr s \<Rightarrow> s = []
             | _ \<Rightarrow> False)"
  proof (cases "dict_get event ''attendees'' (JList [])")
    case (JList ys)
    with xs r attendee_emails_Inr show ?thesis by (auto simp: py_iter_def)
  next
    case (JObj kvs)
    with xs have "xs = map (\<lambda>kv. JStr (fst kv)) kvs" by (simp add: py_iter_def)
    with r attendee_emails_strings [of "\<lambda>kv. JStr (fst kv)" kvs r] JObj show ?thesis
      by simp
  next
    case (JStr s)
    with xs have "xs = map (\<lambda>c. JStr [c]) s" by (simp add: py_iter_def)
    with r attendee_emails_strings [of "\<lambda>c. JStr [c]" s r] JStr show ?thesis
      by simp
  qed (use xs in \<open>simp_all add: py_iter_def\<close>)
  from dc dg da show ?thesis by (simp add: details_accepted_def)
qed

lemma format_times_Inr:
  assumes "format_times lib (time_value sd) (time_value ed)
             (has_key sd ''date'' \<and> \<not> has_key sd ''dateTime'') = Inr p"
  shows "times_accepted lib sd ed"
  using assms
  by (auto simp: times_accepted_def format_times_def is_ok_def and_then_def minus_one_day_def
      split: sum.splits if_splits)

lemma format_event_Inr:
  assumes "format_event lib event include_details = Inr f"
  shows "well_formed_event lib include_details event"
proof -
  from assms obtain start end_value is_all_day where
    se: "start_end event = Inr (start, end_value, is_all_day)"
    by (auto simp: format_event_def and_then_def split: sum.splits)
  then obtain s sd e ed where
    s: "map_of event ''start'' = Some s" and sd: "get_method s = Inr sd"
    and e: "map_of event ''end'' = Some e" and ed: "get_method e = Inr ed"
    and vals: "start = time_value sd" "end_value = time_value ed"
              "is_all_day = (has_key sd ''date'' \<and> \<not> has_key sd ''dateTime'')"
    by (auto simp: start_end_def dict_item_def and_then_def split: sum.splits option.splits)
  from get_method_Inr [OF sd] get_method_Inr [OF ed]
  have shape: "s = JObj sd" "e = JObj ed" by simp_all
  from assms se obtain p where
    p: "format_times lib start end_value is_all_day = Inr p"
    by (auto simp: format_event_def and_then_def split: sum.splits)
  with vals have times: "times_accepted lib sd ed"
    using format_times_Inr by blast
  have "include_details \<longrightarrow> details_accepted event"
  proof
    assume "include_details"
    with assms se p obtain d where "details event = Inr d"
      by (auto simp: format_event_def and_then_def Let_def split: sum.splits prod.splits)
    then show "details_accepted event" by (rule details_Inr)
  qed
  with s e shape times show ?thesis
    by (simp add: well_formed_event_def is_dict_def entries_def)
qed

lemma format_events_well_formed:
  "format_events lib events include_details = Inr out \<Longrightarrow>
     list_all (well_formed_event lib include_details) events"
proof (induction events arbitrary: out)
  case Nil
  then show ?case by simp
next
  case (Cons event events)
  from Cons.prems obtain f fs where
    f: "format_event lib event include_details = Inr f"
    and fs: "format_events lib events include_details = Inr fs"
    by (auto simp: and_then_def split: sum.splits)
  from format_event_Inr [OF f] Cons.IH [OF fs] show ?case by simp
qed

lemma format_events_Inr:
  "format_events lib events include_details = Inr out \<Longrightarrow>
     length out = length events
     \<and> (\<forall>i < length events. format_event lib (events ! i) include_details = Inr (out ! i))"
proof (induction events arbitrary: out)
  case Nil
  then show ?case by simp
next
  case (Cons event events)
  from Cons.prems obtain f fs where
    f: "format_event lib event include_details = Inr f"
    and fs: "format_events lib events include_details = Inr fs"
    and out: "out = f # fs"
    by (auto simp: and_then_def split: sum.splits)
  from Cons.IH [OF fs] f out show ?case
    by (auto simp: nth_Cons split: nat.splits)
qed

lemma format_events_total:
  "list_all (well_formed_event lib include_details) events \<Longrightarrow>
     \<exists>out. format_events lib events include_details = Inr out"
proof (induction events)
  case Nil
  then show ?case by simp
next
  case (Cons event events)
  then obtain f fs where "format_event lib event include_details = Inr f"
    and "format_events lib events include_details = Inr fs"
    using well_formed_event_formats by fastforce
  then show ?case by (simp add: and_then_def)
qed

lemma format_event_all_day:
  assumes "map_of event ''start'' = Some (JObj sd)"
      and "map_of event ''end'' = Some (JObj ed)"
      and "has_key sd ''date''" and "\<not> has_key sd ''dateTime''"
      and "format_event lib event include_details = Inr f"
  shows "map_of f ''is_all_day'' = Some (JBool True)
       \<and> (\<exists>d. strptime lib (time_value ed) = Inr d
              \<and> map_of f ''end'' = Some (JStr (date_isoformat lib (d - 1))))"
proof -
  have se: "start_end event = Inr (time_value sd, time_value ed, True)"
    using assms(1-4) by (simp add: start_end_def dict_item_def get_method_def and_then_def)
  from assms(5) se obtain a b where
    ft: "format_times lib (time_value sd) (time_value ed) True = Inr (a, b)"
    by (auto simp: format_event_def and_then_def split: sum.splits)
  then obtain d where d: "strptime lib (time_value ed) = Inr d"
    and b: "b = date_isoformat lib (d - 1)"
    by (auto simp: format_times_def and_then_def minus_one_day_def split: sum.splits if_splits)
  from assms(5) se ft have "map_of f ''is_all_day'' = Some (JBool True)
                          \<and> map_of f ''end'' = Some (JStr b)"
    by (auto simp: format_event_def and_then_def Let_def split: sum.splits if_splits)
  with d b show ?thesis by blast
qed

text \<open>
  C10 says that every list of events whose entries carry start and end fields is
  formatted. It is not: the event \<open>ex_bare\<close> carries both, they hold no time value, and
  the call raises at \<^verbatim>\<open>parse(start)\<close> instead of returning a record.
\<close>

theorem format_events_counterexample:
  "map_of ex_bare ''start'' = Some (JObj []) \<and> map_of ex_bare ''end'' = Some (JObj [])
   \<and> format_events ex_time [ex_bare] False
       = Inl (TypeError ''Parser must be a string or character stream, not NoneType'')"
  by (simp add: format_defs ex_event_defs)

text \<open>
  C10 as amended: for every list of events each of which has dictionaries under
  \<^verbatim>\<open>start\<close> and \<^verbatim>\<open>end\<close> with time values the parsers accept (and, with
  \<^verbatim>\<open>include_details\<close>, dictionaries for creator, organizer and attendees),
  \<^verbatim>\<open>format_events\<close> returns one record per event, the \<open>i\<close>-th record being the
  formatting of the \<open>i\<close>-th event; and for every all-day event (a \<^verbatim>\<open>date\<close> under
  \<^verbatim>\<open>start\<close> and no \<^verbatim>\<open>dateTime\<close>) the record has \<^verbatim>\<open>is_all_day\<close> true and as its end
  the ISO form of the day before the parsed raw end date. On every other list
  \<^verbatim>\<open>format_events\<close> raises an exception and returns no record.
\<close>

theorem format_events_one_record_per_event:
  "(list_all (well_formed_event lib include_details) events \<longrightarrow>
      (\<exists>out. format_events lib events include_details = Inr out
           \<and> length out = length events
           \<and> (\<forall>i < length events.
                 format_event lib (events ! i) include_details = Inr (out ! i)
                 \<and> (\<forall>sd ed. map_of (events ! i) ''start'' = Some (JObj sd)
                            \<and> map_of (events ! i) ''end'' = Some (JObj ed)
                            \<and> has_key sd ''date'' \<and> \<not> has_key sd ''dateTime''
                      \<longrightarrow> map_of (out ! i) ''is_all_day'' = Some (JBool True)
                          \<and> (\<exists>d. strptime lib (time_value ed) = Inr d
                                 \<and> map_of (out ! i) ''end''
                                     = Some (JStr (date_isoformat lib (d - 1))))))))
   \<and> (\<not> list_all (well_formed_event lib include_details) events \<longrightarrow>
        (\<exists>x. format_events lib events include_details = Inl x))"
proof (intro conjI impI)
  assume wf: "list_all (well_formed_event lib include_details) events"
  from format_events_total [OF wf] obtain out where
    out: "format_events lib events include_details = Inr out" ..
  note nth = format_events_Inr [OF out]
  have "\<forall>i < length events.
          format_event lib (events ! i) include_details = Inr (out ! i)
          \<and> (\<forall>sd ed. map_of (events ! i) ''start'' = Some (JObj sd)
                     \<and> map_of (events ! i) ''end'' = Some (JObj ed)
                     \<and> has_key sd ''date'' \<and> \<not> has_key sd ''dateTime''
               \<longrightarrow> map_of (out ! i) ''is_all_day'' = Some (JBool True)
                   \<and> (\<exists>d. strptime lib (time_value ed) = Inr d
                          \<and> map_of (out ! i) ''end''
                              = Some (JStr (date_isoformat lib (d - 1)))))"
    using nth format_event_all_day by blast
  with out nth show "\<exists>out. format_events lib events include_details = Inr out
           \<and> length out = length events
           \<and> (\<forall>i < length events.
                 format_event lib (events ! i) include_details = Inr (out ! i)
                 \<and> (\<forall>sd ed. map_of (events ! i) ''start'' = Some (JObj sd)
                            \<and> map_of (events ! i) ''end'' = Some (JObj ed)
                            \<and> has_key sd ''date'' \<and> \<not> has_key sd ''dateTime''
                      \<longrightarrow> map_of (out ! i) ''is_all_day'' = Some (JBool True)
                          \<and> (\<exists>d. strptime lib (time_value ed) = Inr d
                                 \<and> map_of (out ! i) ''end''
                                     = Some (JStr (date_isoformat lib (d - 1))))))"
    by blast
next
  assume bad: "\<not> list_all (well_formed_event lib include_details) events"
  show "\<exists>x. format_events lib events include_details = Inl x"
  proof (cases "format_events lib events include_details")
    case (Inl x)
    then show ?thesis by blast
  next
    case (Inr out)
    from format_events_well_formed [OF Inr] bad show ?thesis by simp
  qed
qed

theorem format_events_one_record_per_event_witness:
  "format_events ex_time [ex_all_day, ex_timed] False
     = Inr [[(''id'', JStr ''ev1''), (''summary'', JStr ''Conference''),
             (''start'', JStr ''2024-03-01''), (''end'', JStr ''2024-03-02''),
             (''is_all_day'', JBool True)],
            [(''id'', JStr ''ev2''), (''summary'', JStr ''No Title''),
             (''start'', JStr ''2024-03-04T09:00:00+01:00''),
             (''end'', JStr ''2024-03-04T10:30:00+01:00''),
             (''is_all_day'', JBool False)]]
   \<and> strptime ex_time (JStr ''2024-03-03'') = Inr 738948
   \<and> date_isoformat ex_time (738948 - 1) = ''2024-03-02''
   \<and> \<not> list_all (well_formed_event ex_time False) [ex_all_day, ex_bare]
   \<and> (\<exists>x. format_events ex_time [ex_all_day, ex_bare] False = Inl x)"
proof -
  have wf: "list_all (well_formed_event ex_time False) [ex_all_day, ex_timed]"
    by (simp add: well_formed_event_def times_accepted_def is_ok_def is_dict_def entries_def
          format_defs ex_event_defs)
  from format_events_one_record_per_event [of ex_time False "[ex_all_day, ex_timed]"] wf
  obtain out where "format_events ex_time [ex_all_day, ex_timed] False = Inr out" by blast
  then have good: "format_events ex_time [ex_all_day, ex_timed] False
     = Inr [[(''id'', JStr ''ev1''), (''summary'', JStr ''Conference''),
             (''start'', JStr ''2024-03-01''), (''end'', JStr ''2024-03-02''),
             (''is_all_day'', JBool True)],
            [(''id'', JStr ''ev2''), (''summary'', JStr ''No Title''),
             (''start'', JStr ''2024-03-04T09:00:00+01:00''),
             (''end'', JStr ''2024-03-04T10:30:00+01:00''),
             (''is_all_day'', JBool False)]]
   \<and> strptime ex_time (JStr ''2024-03-03'') = Inr 738948
   \<and> date_isoformat ex_time (738948 - 1) = ''2024-03-02''"
    by (simp add: format_defs ex_event_defs)
  have bad: "\<not> list_all (well_formed_event ex_time False) [ex_all_day, ex_bare]"
    by (simp add: well_formed_event_def times_accepted_def is_ok_def is_dict_def entries_def
          format_defs ex_event_defs)
  from format_events_one_record_per_event [of ex_time False "[ex_all_day, ex_bare]"] bad
  have "\<exists>x. format_events ex_time [ex_all_day, ex_bare] False = Inl x" by blast
  with good bad show ?thesis by blast
qed

section \<open>lambda\_handler always answers (C9)\<close>

lemma analyse_and_answer_status:
  assumes "analyse_and_answer h days_back creds w = (Inr r, w1)"
  shows "statusCode r = 200 \<and> (\<exists>j. body r = json_dumps h j)"
  using assms
  by (fastforce simp: analyse_and_answer_def split: sum.splits prod.splits if_splits)

lemma not_configured_status:
  "statusCode (not_configured h) = 400 \<and> (\<exists>j. body (not_configured h) = json_dumps h j)"
  by (auto simp: not_configured_def)

lemma lambda_handler_try_status:
  assumes "lambda_handler_try h event w = (Inr r, w1)"
  shows "(statusCode r = 200 \<or> statusCode r = 400) \<and> (\<exists>j. body r = json_dumps h j)"
proof -
  from assms have
    "r = not_configured h \<or> (\<exists>d c v. analyse_and_answer h d c v = (Inr r, w1))"
    by (auto simp: lambda_handler_try_def split: sum.splits prod.splits option.splits if_splits)
  then show ?thesis
    using not_configured_status analyse_and_answer_status by blast
qed

text \<open>
  C9: for every event and every state of the outside, \<^verbatim>\<open>lambda_handler\<close> returns an
  answer whose status is 200, 400 or 500 and whose body is an output of
  \<^verbatim>\<open>json.dumps\<close>; and when the body of the \<^verbatim>\<open>try\<close> raises an exception, the answer
  is the status 500 with the exception's message in the body. The handler has no
  other outcome: its result is always an answer.
\<close>

theorem lambda_handler_always_answers:
  "(statusCode (fst (lambda_handler h event w)) = 200
      \<or> statusCode (fst (lambda_handler h event w)) = 400
      \<or> statusCode (fst (lambda_handler h event w)) = 500)
   \<and> (\<exists>j. body (fst (lambda_handler h event w)) = json_dumps h j)
   \<and> (\<forall>x w1. lambda_handler_try h event w = (Inl x, w1) \<longrightarrow>
         lambda_handler h event w
           = (\<lparr>statusCode = 500, headers = [],
               body = json_dumps h
                 (JObj [(''error'', JStr (''An error occurred: '' @ str_of_exn x))])\<rparr>,
              emit (Print (''Error: '' @ str_of_exn x)) w1))"
proof (cases "lambda_handler_try h event w")
  case (Pair res w1)
  show ?thesis
  proof (cases res)
    case (Inl x)
    with Pair show ?thesis by (auto simp: lambda_handler_def)
  next
    case (Inr r)
    with Pair have "lambda_handler h event w = (r, w1)" by (simp add: lambda_handler_def)
    with Pair Inr lambda_handler_try_status [of h event w r w1] show ?thesis by auto
  qed
qed

theorem lambda_handler_always_answers_witness:
  "lambda_handler ex_handler_env [(''queryStringParameters'', JNull)] ex_empty_world
     = (\<lparr>statusCode = 500, headers = [],
         body = json_dumps ex_handler_env
           (JObj [(''error'',
              JStr (''An error occurred: '' @
                str_of_exn (AttributeError
                  (quoted ''NoneType'' @ '' object has no attribute '' @ quoted ''get''))))])\<rparr>,
        emit (Print (''Error: '' @
                str_of_exn (AttributeError
                  (quoted ''NoneType'' @ '' object has no attribute '' @ quoted ''get''))))
          ex_empty_world)"
proof -
  have raised: "lambda_handler_try ex_handler_env [(''queryStringParameters'', JNull)]
                  ex_empty_world
                = (Inl (AttributeError
                     (quoted ''NoneType'' @ '' object has no attribute '' @ quoted ''get'')),
                   ex_empty_world)"
    by (simp add: lambda_handler_try_def parse_days_def get_method_def dict_get_def
          and_then_def)
  from lambda_handler_always_answers
         [of ex_handler_env "[(''queryStringParameters'', JNull)]" ex_empty_world]
       raised
  show ?thesis by blast
qed

text \<open>
  The two inputs named in C9: an event without \<^verbatim>\<open>queryStringParameters\<close> is
  analysed over the default seven days, and an environment without the credentials
  variable is answered with status 400.
\<close>

lemma lambda_handler_missing_parameters:
  "parse_days h [] = Inr 7"
  by (simp add: parse_days_def get_method_def dict_get_def and_then_def py_int_def
        DEFAULT_DAYS_def)

lemma lambda_handler_missing_credentials:
  "environ h ''GOOGLE_CREDENTIALS_JSON'' = None \<Longrightarrow>
     lambda_handler h [] w = (not_configured h, w)"
  by (simp add: lambda_handler_def lambda_handler_try_def lambda_handler_missing_parameters)

end
